theory Spec2Isabelle
  imports
    Complex_Main
    "HOL-Library.Multiset"
    "HOL-Library.Sublist"
    "HOL-Library.Char_ord"
    "HOL-Library.List_Lexorder"
begin

section \<open>Data model\<close>

text \<open>
  The program handles the place objects of the search API as Python dictionaries and
  reads them only through \<^verbatim>\<open>place.get(key, default)\<close>. A place is a record
  with one optional field per key the program reads; \<open>None\<close> is a missing key.

  A Python \<^verbatim>\<open>float\<close> is modelled by the \<^typ>\<open>real\<close> number it stands for (no
  NaN and no infinities). Comparisons of floats are exact. The operations that round are
  exact in the model, except in the sort key of the ranker, where the order of the result
  depends on the rounding: there they are parameters. Python's \<^verbatim>\<open>int\<close> is
  modelled by \<^typ>\<open>int\<close>, and
  \<^verbatim>\<open>str\<close> by \<^typ>\<open>string\<close> restricted to ASCII, so that
  \<^verbatim>\<open>lower()\<close>, \<^verbatim>\<open>title()\<close> and \<^verbatim>\<open>strip()\<close> are the ASCII ones.
\<close>

record place =
  name :: "string option"
  rating :: "real option"
  user_ratings_total :: "int option"
  types :: "string list option"
  vicinity :: "string option"

text \<open>\<^verbatim>\<open>d.get(key, default)\<close> on a field.\<close>

definition get :: "'a option \<Rightarrow> 'a \<Rightarrow> 'a" where
  "get field dflt = (case field of None \<Rightarrow> dflt | Some v \<Rightarrow> v)"

section \<open>Ranker\<close>

text \<open>
  \<^verbatim>\<open>
  def calculate_score(restaurant):
      rating = restaurant.get("rating", 0)
      reviews = restaurant.get("user_ratings_total", 1)
      return (rating ** 2) * math.log10(max(reviews, 1))
  \<close>
  The function is modelled twice. \<open>calculate_score\<close> is its value in exact arithmetic.
  \<open>calculate_score_fl\<close> is the value the interpreter computes: the three operations of
  the body, \<^verbatim>\<open>**\<close>, \<^verbatim>\<open>math.log10\<close> and \<^verbatim>\<open>*\<close>, are the fields of a
  parameter \<open>fl\<close>, each returning the rounded result of the machine. Two places whose
  exact scores are equal can have different computed scores, and the sort of the ranker
  compares the computed ones.
\<close>

definition calculate_score :: "place \<Rightarrow> real" where
  "calculate_score restaurant =
     (let rating = get (rating restaurant) 0;
          reviews = get (user_ratings_total restaurant) 1
      in (rating ^ 2) * log 10 (real_of_int (max reviews 1)))"

record float_ops =
  fl_pow :: "real \<Rightarrow> nat \<Rightarrow> real"
  fl_log10 :: "int \<Rightarrow> real"
  fl_mul :: "real \<Rightarrow> real \<Rightarrow> real"

definition calculate_score_fl :: "float_ops \<Rightarrow> place \<Rightarrow> real" where
  "calculate_score_fl fl restaurant =
     (let rating = get (rating restaurant) 0;
          reviews = get (user_ratings_total restaurant) 1
      in fl_mul fl (fl_pow fl rating 2) (fl_log10 fl (max reviews 1)))"

text \<open>The operations without rounding.\<close>

definition exact_ops :: float_ops where
  "exact_ops = \<lparr>fl_pow = (\<lambda>x n. x ^ n),
                 fl_log10 = (\<lambda>n. log 10 (real_of_int n)),
                 fl_mul = (\<lambda>x y. x * y)\<rparr>"

text \<open>
  \<^verbatim>\<open>sorted(xs, key=k, reverse=True)\<close>: CPython reverses the list, sorts it with a
  stable ascending sort, and reverses the result, which keeps equal keys in their
  input order. \<^const>\<open>sort_key\<close> is the stable (insertion) sort of the library.
\<close>

definition sorted_reverse :: "('a \<Rightarrow> 'k::linorder) \<Rightarrow> 'a list \<Rightarrow> 'a list" where
  "sorted_reverse k xs = rev (sort_key k (rev xs))"

text \<open>
  \<^verbatim>\<open>
  def filter_and_rank_restaurants(restaurants, min_rating, min_reviews):
      filtered = [r for r in restaurants
                  if r.get("rating", 0) >= min_rating
                  and r.get("user_ratings_total", 0) >= min_reviews]
      return sorted(filtered, key=calculate_score, reverse=True)
  \<close>
  The sort key is the score as the machine computes it, in the arithmetic \<open>fl\<close>.
\<close>

definition filter_and_rank_restaurants ::
  "float_ops \<Rightarrow> place list \<Rightarrow> real \<Rightarrow> int \<Rightarrow> place list" where
  "filter_and_rank_restaurants fl restaurants min_rating min_reviews =
     (let filtered = filter (\<lambda>r. get (rating r) 0 \<ge> min_rating
                                  \<and> get (user_ratings_total r) 0 \<ge> min_reviews) restaurants
      in sorted_reverse (calculate_score_fl fl) filtered)"

section \<open>Strings\<close>

text \<open>The \<^verbatim>\<open>str\<close> methods the program calls, on ASCII.\<close>

definition ascii_uppercase :: string where
  "ascii_uppercase = ''ABCDEFGHIJKLMNOPQRSTUVWXYZ''"

definition ascii_lowercase :: string where
  "ascii_lowercase = ''abcdefghijklmnopqrstuvwxyz''"

definition lower_char :: "char \<Rightarrow> char" where
  "lower_char c = get (map_of (zip ascii_uppercase ascii_lowercase) c) c"

definition upper_char :: "char \<Rightarrow> char" where
  "upper_char c = get (map_of (zip ascii_lowercase ascii_uppercase) c) c"

text \<open>\<^verbatim>\<open>s.lower()\<close>\<close>

definition lower :: "string \<Rightarrow> string" where
  "lower s = map lower_char s"

text \<open>
  \<^verbatim>\<open>s.title()\<close>: a cased character is upper-cased when the character before it
  is not cased, and lower-cased otherwise.
\<close>

fun title_from :: "bool \<Rightarrow> string \<Rightarrow> string" where
  "title_from previous_is_cased [] = []"
| "title_from previous_is_cased (c # s) =
     (if c \<in> set ascii_lowercase then
        (if previous_is_cased then c else upper_char c) # title_from True s
      else if c \<in> set ascii_uppercase then
        (if previous_is_cased then lower_char c else c) # title_from True s
      else c # title_from False s)"

definition title :: "string \<Rightarrow> string" where
  "title s = title_from False s"

text \<open>
  \<^verbatim>\<open>s.strip()\<close> removes leading and trailing whitespace; the ASCII characters
  for which \<^verbatim>\<open>isspace()\<close> holds are 9 to 13, 28 to 31 and the blank.
\<close>

definition isspace :: "char \<Rightarrow> bool" where
  "isspace c = (c \<in> set [CHR 0x09, CHR 0x0A, CHR 0x0B, CHR 0x0C, CHR 0x0D,
                           CHR 0x1C, CHR 0x1D, CHR 0x1E, CHR 0x1F, CHR 0x20])"

definition strip :: "string \<Rightarrow> string" where
  "strip s = rev (dropWhile isspace (rev (dropWhile isspace s)))"

text \<open>
  \<^verbatim>\<open>s.split(sep)\<close> with a one-character separator: the fields between the
  separators, empty fields included, so the result is never empty.
\<close>

fun split :: "char \<Rightarrow> string \<Rightarrow> string list" where
  "split sep [] = [[]]"
| "split sep (c # s) =
     (if c = sep then [] # split sep s
      else (case split sep s of
              [] \<Rightarrow> [[c]]
            | w # ws \<Rightarrow> (c # w) # ws))"

text \<open>\<^verbatim>\<open>sep.join(xs)\<close>\<close>

fun join :: "string \<Rightarrow> string list \<Rightarrow> string" where
  "join sep [] = []"
| "join sep [x] = x"
| "join sep (x # y # xs) = x @ sep @ join sep (y # xs)"

text \<open>Truthiness of an optional string: \<^verbatim>\<open>None\<close> and \<^verbatim>\<open>""\<close> are false.\<close>

definition truthy :: "string option \<Rightarrow> bool" where
  "truthy s = (case s of None \<Rightarrow> False | Some v \<Rightarrow> v \<noteq> [])"

section \<open>Classifier\<close>

definition RESTAURANT_TYPES :: "string set" where
  "RESTAURANT_TYPES = {''restaurant'', ''meal_delivery'', ''meal_takeaway''}"

definition EXCLUDE_TYPES :: "string set" where
  "EXCLUDE_TYPES = {''lodging'', ''hotel'', ''motel'', ''gas_station'',
                    ''grocery_or_supermarket'', ''convenience_store''}"

text \<open>
  \<^verbatim>\<open>
  def is_true_restaurant(place):
      place_types = set(place.get("types", []))
      if place_types.intersection(EXCLUDE_TYPES):
          return False
      if place_types.intersection(RESTAURANT_TYPES):
          return True
      name_lower = place.get("name", "").lower()
      restaurant_keywords = ["restaurant", "grill", "kitchen", "bistro", "cafe",
                             "diner", "eatery", "steakhouse", "pizzeria", "sushi"]
      return any(keyword in name_lower for keyword in restaurant_keywords)
  \<close>
  \<^verbatim>\<open>keyword in name_lower\<close> on strings is the contiguous-substring test,
  \<^const>\<open>sublist\<close>.
\<close>

definition restaurant_keywords :: "string list" where
  "restaurant_keywords = [''restaurant'', ''grill'', ''kitchen'', ''bistro'', ''cafe'',
                          ''diner'', ''eatery'', ''steakhouse'', ''pizzeria'', ''sushi'']"

definition is_true_restaurant :: "place \<Rightarrow> bool" where
  "is_true_restaurant place =
     (let place_types = set (get (types place) []) in
      if place_types \<inter> EXCLUDE_TYPES \<noteq> {} then False
      else if place_types \<inter> RESTAURANT_TYPES \<noteq> {} then True
      else (let name_lower = lower (get (name place) [])
            in list_ex (\<lambda>keyword. sublist keyword name_lower) restaurant_keywords))"

section \<open>Output and effects\<close>

text \<open>
  A printed line is the list of the pieces of its f-string: literal text and values with
  their format specification, the numbers left unrendered.
\<close>

datatype frag =
    Str string          \<comment> \<open>literal text, or a string value\<close>
  | Repr string         \<comment> \<open>\<^verbatim>\<open>repr\<close> of a string\<close>
  | Dec int             \<comment> \<open>\<^verbatim>\<open>{n}\<close> for an integer\<close>
  | Num real            \<comment> \<open>\<^verbatim>\<open>{x}\<close> for a number\<close>
  | Fixed nat real      \<comment> \<open>\<^verbatim>\<open>{x:.df}\<close>\<close>
  | Width nat int       \<comment> \<open>\<^verbatim>\<open>{n:w}\<close>\<close>
  | Grouped int         \<comment> \<open>\<^verbatim>\<open>{n:,}\<close>\<close>

type_synonym line = "frag list"

text \<open>The query parameters of one request (the dictionary \<^verbatim>\<open>params\<close>).\<close>

record params =
  key :: string
  type :: string
  keyword :: string
  location :: "(real \<times> real) option"
  radius :: "int option"
  pagetoken :: "string option"

text \<open>
  What the program does to the outside, in order: a printed line, a
  \<^verbatim>\<open>time.sleep\<close>, a \<^verbatim>\<open>requests.get\<close> on the search endpoint.
\<close>

datatype event = Print line | Sleep nat | HttpGet params

datatype error = SysExit int | KeyError string

definition quote :: string where
  "quote = [CHR 0x27]"

definition newline :: string where
  "newline = [CHR 0x0A]"

section \<open>Geocoder\<close>

text \<open>The table \<^verbatim>\<open>CITY_COORDINATES\<close>, in the order of the source.\<close>

definition CITY_COORDINATES :: "(string \<times> real \<times> real) list" where
  "CITY_COORDINATES =
     [(''seattle'', 47.6062, -122.3321),
      (''san francisco'', 37.7749, -122.4194),
      (''los angeles'', 34.0522, -118.2437),
      (''new york'', 40.7128, -74.0060),
      (''chicago'', 41.8781, -87.6298),
      (''austin'', 30.2672, -97.7431),
      (''portland'', 45.5152, -122.6784),
      (''miami'', 25.7617, -80.1918),
      (''boston'', 42.3601, -71.0589),
      (''denver'', 39.7392, -104.9903),
      (''atlanta'', 33.7490, -84.3880),
      (''dallas'', 32.7767, -96.7970),
      (''houston'', 29.7604, -95.3698),
      (''philadelphia'', 39.9526, -75.1652),
      (''phoenix'', 33.4484, -112.0740),
      (''san diego'', 32.7157, -117.1611),
      (''washington dc'', 38.9072, -77.0369),
      (''las vegas'', 36.1699, -115.1398),
      (''nashville'', 36.1627, -86.7816),
      (''new orleans'', 29.9511, -90.0715)]"

text \<open>
  The builtin \<^verbatim>\<open>float(s)\<close> is a parameter \<open>float\<close> of the geocoder: it
  returns \<open>None\<close> where Python raises \<^verbatim>\<open>ValueError\<close>, and otherwise a finite
  number or one of \<^verbatim>\<open>inf\<close>, \<^verbatim>\<open>-inf\<close>, \<^verbatim>\<open>nan\<close>, which all fail
  every two-sided range test.
\<close>

datatype pyfloat = Finite real | NonFinite

text \<open>
  The body of the \<^verbatim>\<open>try\<close> block of \<^verbatim>\<open>get_location\<close>; \<open>Inl\<close> carries the
  message of the \<^verbatim>\<open>ValueError\<close> raised.
  \<^verbatim>\<open>
  parts = coords.split(',')
  if len(parts) != 2:
      raise ValueError("Coordinates must be in format: lat,lng")
  lat = float(parts[0].strip())
  lng = float(parts[1].strip())
  if not (-90 <= lat <= 90) or not (-180 <= lng <= 180):
      raise ValueError("Invalid coordinate range")
  return lat, lng, f"({lat:.4f}, {lng:.4f})"
  \<close>
\<close>

fun check_range :: "pyfloat \<Rightarrow> pyfloat \<Rightarrow> line + (real \<times> real \<times> line)" where
  "check_range (Finite lat) (Finite lng) =
     (if \<not> (-90 \<le> lat \<and> lat \<le> 90) \<or> \<not> (-180 \<le> lng \<and> lng \<le> 180)
      then Inl [Str ''Invalid coordinate range'']
      else Inr (lat, lng, [Str ''('', Fixed 4 lat, Str '', '', Fixed 4 lng, Str '')'']))"
| "check_range lat lng = Inl [Str ''Invalid coordinate range'']"

definition parse_coords ::
  "(string \<Rightarrow> pyfloat option) \<Rightarrow> string \<Rightarrow> line + (real \<times> real \<times> line)" where
  "parse_coords float coords =
     (case split CHR '','' coords of
        [p0, p1] \<Rightarrow>
          (case float (strip p0) of
             None \<Rightarrow> Inl [Str ''could not convert string to float: '', Repr (strip p0)]
           | Some lat \<Rightarrow>
               (case float (strip p1) of
                  None \<Rightarrow> Inl [Str ''could not convert string to float: '', Repr (strip p1)]
                | Some lng \<Rightarrow> check_range lat lng))
      | parts \<Rightarrow> Inl [Str ''Coordinates must be in format: lat,lng''])"

text \<open>
  \<^verbatim>\<open>
  def get_location(city, coords):
      if coords:
          try: ...
          except ValueError as e:
              print(f"Error parsing coordinates: {e}")
              sys.exit(1)
      elif city:
          city_lower = city.lower()
          if city_lower not in CITY_COORDINATES:
              print(f"Error: City '{city}' not found in database.")
              print(f"Available cities: {', '.join(sorted(CITY_COORDINATES.keys()))}")
              print(f"\nOr use --coords with latitude,longitude (e.g., --coords 47.6062,-122.3321)")
              sys.exit(1)
          lat, lng = CITY_COORDINATES[city_lower]
          return lat, lng, city.title()
      else:
          lat, lng = CITY_COORDINATES["seattle"]
          return lat, lng, "Seattle"
  \<close>
  The result is the lines printed and either the exit or the value returned.
\<close>

definition get_location ::
  "(string \<Rightarrow> pyfloat option) \<Rightarrow> string option \<Rightarrow> string option
     \<Rightarrow> event list \<times> (error + (real \<times> real \<times> line))" where
  "get_location float city coords =
     (if truthy coords then
        (case parse_coords float (get coords []) of
           Inl e \<Rightarrow> ([Print ([Str ''Error parsing coordinates: ''] @ e)], Inl (SysExit 1))
         | Inr loc \<Rightarrow> ([], Inr loc))
      else if truthy city then
        (let city_lower = lower (get city []) in
         case map_of CITY_COORDINATES city_lower of
           None \<Rightarrow>
             ([Print [Str ''Error: City '', Str quote, Str (get city []), Str quote,
                      Str '' not found in database.''],
               Print [Str ''Available cities: '',
                      Str (join '', '' (sort (map fst CITY_COORDINATES)))],
               Print [Str newline,
                      Str ''Or use --coords with latitude,longitude (e.g., --coords 47.6062,-122.3321)'']],
              Inl (SysExit 1))
         | Some (lat, lng) \<Rightarrow> ([], Inr (lat, lng, [Str (title (get city []))])))
      else
        (case map_of CITY_COORDINATES ''seattle'' of
           Some (lat, lng) \<Rightarrow> ([], Inr (lat, lng, [Str ''Seattle'']))
         | None \<Rightarrow> ([], Inl (KeyError ''seattle''))))"

text \<open>
  An instance of the parameter \<open>float\<close>, for running the geocoder on concrete inputs:
  the builtin on plain decimal literals, an optional sign, digits and an optional point
  (\<^verbatim>\<open>47.6\<close>, \<^verbatim>\<open>-122\<close>, \<^verbatim>\<open>.5\<close>, \<^verbatim>\<open>3.\<close>). The other literals
  the builtin reads (exponents, underscores, \<^verbatim>\<open>inf\<close>, \<^verbatim>\<open>nan\<close>) are outside it.
\<close>

definition digit_val :: "char \<Rightarrow> nat option" where
  "digit_val c = map_of (zip ''0123456789'' [0 ..< 10]) c"

fun digits_val :: "nat \<Rightarrow> string \<Rightarrow> nat option" where
  "digits_val acc [] = Some acc"
| "digits_val acc (c # s) =
     (case digit_val c of None \<Rightarrow> None | Some d \<Rightarrow> digits_val (10 * acc + d) s)"

definition unsigned_decimal :: "string \<Rightarrow> real option" where
  "unsigned_decimal s =
     (let ip = takeWhile (\<lambda>c. c \<noteq> CHR ''.'') s;
          fp = drop 1 (dropWhile (\<lambda>c. c \<noteq> CHR ''.'') s)
      in if ip = [] \<and> fp = [] then None
         else (case (digits_val 0 ip, digits_val 0 fp) of
                 (Some i, Some f) \<Rightarrow> Some (real i + real f / 10 ^ length fp)
               | _ \<Rightarrow> None))"

definition float_decimal :: "string \<Rightarrow> pyfloat option" where
  "float_decimal s =
     (case s of
        [] \<Rightarrow> None
      | c # t \<Rightarrow>
          if c = CHR ''-'' then map_option (\<lambda>x. Finite (- x)) (unsigned_decimal t)
          else if c = CHR ''+'' then map_option Finite (unsigned_decimal t)
          else map_option Finite (unsigned_decimal s))"

section \<open>Fetcher\<close>

text \<open>
  \<^verbatim>\<open>int(x)\<close> on a float truncates towards zero.
  \<^verbatim>\<open>
  def miles_to_meters(miles):
      return int(miles * 1609.34)
  \<close>
\<close>

definition int_of_float :: "real \<Rightarrow> int" where
  "int_of_float x = (if 0 \<le> x then \<lfloor>x\<rfloor> else \<lceil>x\<rceil>)"

definition miles_to_meters :: "real \<Rightarrow> int" where
  "miles_to_meters miles = int_of_float (miles * 1609.34)"

text \<open>
  The decoded body of a response (the dictionary \<^verbatim>\<open>data\<close>) and the outcome of
  \<^verbatim>\<open>requests.get\<close>, \<^verbatim>\<open>raise_for_status\<close> and \<^verbatim>\<open>json\<close>: either a
  \<^verbatim>\<open>RequestException\<close> with its text (no connection, a timeout, an HTTP error
  status, a body that does not decode), or the body, which is a JSON object. The remote
  service is a function from the number of the request (from 0) and its parameters to the
  outcome.
\<close>

record response =
  status :: "string option"
  error_message :: "string option"
  results :: "place list option"
  next_page_token :: "string option"

datatype http_result = RequestException string | Json response

type_synonym api = "nat \<Rightarrow> params \<Rightarrow> http_result"

text \<open>The parameters built at the top of the loop body.\<close>

definition build_params :: "real \<Rightarrow> real \<Rightarrow> int \<Rightarrow> string \<Rightarrow> nat \<Rightarrow> string option \<Rightarrow> params" where
  "build_params lat lng radius_meters api_key page_count page_token =
     (let params = \<lparr>key = api_key, type = ''restaurant'', keyword = ''restaurant'',
                     location = None, radius = None, pagetoken = None\<rparr>
      in if page_count = 0
         then params\<lparr>location := Some (lat, lng), radius := Some radius_meters\<rparr>
         else params\<lparr>pagetoken := page_token\<rparr>)"

text \<open>\<^verbatim>\<open>{x}\<close> in an f-string for an optional string: \<^verbatim>\<open>None\<close> prints as its name.\<close>

definition format_opt :: "string option \<Rightarrow> string" where
  "format_opt s = get s ''None''"

text \<open>
  One pass through the body of \<^verbatim>\<open>while page_count < 3\<close>, on the accumulated
  restaurants, the continuation token and the events so far. \<open>Break\<close> is the
  \<^verbatim>\<open>break\<close> statement; \<open>Continue\<close> reaches \<^verbatim>\<open>page_count += 1\<close>.
\<close>

datatype 'a ctl = Break 'a | Continue 'a

definition loop_body ::
  "api \<Rightarrow> real \<Rightarrow> real \<Rightarrow> int \<Rightarrow> string \<Rightarrow> nat
     \<Rightarrow> place list \<times> string option \<times> event list
     \<Rightarrow> (place list \<times> string option \<times> event list) ctl" where
  "loop_body api lat lng radius_meters api_key page_count s =
     (case s of (all_restaurants, page_token, out) \<Rightarrow>
      let params = build_params lat lng radius_meters api_key page_count page_token;
          out = (if page_count = 0 then out
                 else out @ [Print [Str ''  Fetching page '', Dec (int page_count + 1), Str ''/3...''],
                             Sleep 2]);
          out = out @ [HttpGet params]
      in case api page_count params of
           RequestException e \<Rightarrow>
             Break (all_restaurants, page_token,
                    out @ [Print [Str ''Error: API request failed: '', Str e]])
         | Json data \<Rightarrow>
             if status data \<noteq> Some ''OK'' \<and> status data \<noteq> Some ''ZERO_RESULTS'' then
               Break (all_restaurants, page_token,
                      out @ [Print [Str ''Warning: API returned status '', Str quote,
                                    Str (format_opt (status data)), Str quote]]
                          @ (if truthy (error_message data)
                             then [Print [Str ''Details: '', Str (get (error_message data) [])]]
                             else []))
             else
               (let page_results = get (results data) [];
                    true_restaurants = filter is_true_restaurant page_results;
                    out = (if length true_restaurants < length page_results
                           then out @ [Print [Str ''    (Filtered out '',
                                              Dec (int (length page_results)
                                                   - int (length true_restaurants)),
                                              Str '' non-restaurant results)'']]
                           else out);
                    all_restaurants = all_restaurants @ true_restaurants;
                    page_token = next_page_token data
                in if \<not> truthy page_token
                   then Break (all_restaurants, page_token, out)
                   else Continue (all_restaurants, page_token, out)))"

function fetch_loop ::
  "api \<Rightarrow> real \<Rightarrow> real \<Rightarrow> int \<Rightarrow> string \<Rightarrow> nat
     \<Rightarrow> place list \<times> string option \<times> event list
     \<Rightarrow> place list \<times> string option \<times> event list" where
  "fetch_loop api lat lng radius_meters api_key page_count s =
     (if page_count < 3 then
        (case loop_body api lat lng radius_meters api_key page_count s of
           Break s' \<Rightarrow> s'
         | Continue s' \<Rightarrow> fetch_loop api lat lng radius_meters api_key (page_count + 1) s')
      else s)"
  by pat_completeness auto
termination
  by (relation "measure (\<lambda>(api, lat, lng, radius_meters, api_key, page_count, s). 3 - page_count)")
     auto

declare fetch_loop.simps [simp del]

text \<open>
  \<^verbatim>\<open>
  def fetch_all_restaurants(lat, lng, radius_miles, api_key):
      all_restaurants = []
      next_page_token = None
      page_count = 0
      radius_meters = miles_to_meters(radius_miles)
      if radius_meters > 50000:
          radius_meters = 50000
          print(f"  Note: Radius capped at 31 miles (API limit)")
      while page_count < 3: ...
      return all_restaurants
  \<close>
  The result is the restaurants returned and the events of the call, in order.
\<close>

definition clamp_notice :: event where
  "clamp_notice = Print [Str ''  Note: Radius capped at 31 miles (API limit)'']"

definition fetch_all_restaurants ::
  "api \<Rightarrow> real \<Rightarrow> real \<Rightarrow> real \<Rightarrow> string \<Rightarrow> place list \<times> event list" where
  "fetch_all_restaurants api lat lng radius_miles api_key =
     (let radius_meters = miles_to_meters radius_miles;
          (radius_meters, out) =
             (if radius_meters > 50000 then (50000, [clamp_notice]) else (radius_meters, []))
      in case fetch_loop api lat lng radius_meters api_key 0 ([], None, out) of
           (all_restaurants, page_token, out) \<Rightarrow> (all_restaurants, out))"

section \<open>Presenter\<close>

text \<open>\<^verbatim>\<open>xs[:n]\<close>: a negative \<open>n\<close> counts from the end.\<close>

definition slice_to :: "int \<Rightarrow> 'a list \<Rightarrow> 'a list" where
  "slice_to n xs = (if 0 \<le> n then take (nat n) xs else take (length xs - nat (- n)) xs)"

text \<open>
  The lines of one entry of the listing, the body of
  \<^verbatim>\<open>for idx, restaurant in enumerate(restaurants[:MAX_DISPLAY], 1)\<close>.
\<close>

definition display_entry :: "bool \<Rightarrow> nat \<times> place \<Rightarrow> event list" where
  "display_entry show_types e =
     (case e of (idx, restaurant) \<Rightarrow>
      let name = get (name restaurant) ''Unknown'';
          rating = get (rating restaurant) 0;
          review_count = get (user_ratings_total restaurant) 0;
          address = get (vicinity restaurant) ''Address not available'';
          relevant_types =
            filter (\<lambda>t. t \<notin> set [''point_of_interest'', ''establishment'', ''food''])
                   (get (types restaurant) []);
          address = (if length address > 60 then take 57 address @ ''...'' else address)
      in [Print [Width 2 (int idx), Str ''. '', Str name],
          Print [Str ''    Rating: '', Num rating, Str '' | Reviews: '', Grouped review_count]]
         @ (if show_types \<and> relevant_types \<noteq> []
            then [Print [Str ''    Type: '', Str (join '', '' (take 3 relevant_types))]]
            else [])
         @ [Print [Str ''    Location: '', Str address],
            Print []])"

text \<open>
  \<^verbatim>\<open>
  def display_results(restaurants, location_name, radius_miles, min_rating,
                      min_reviews, total_fetched, show_types=False):
      print(f"\nRestaurants near {location_name}")
      print(f"Search radius: {radius_miles} miles")
      print(f"Filters: Rating >= {min_rating}, Reviews >= {min_reviews}")
      print(f"Fetched: {total_fetched} | Matched: {len(restaurants)}")
      print("-" * 70)
      if not restaurants:
          print("\nNo restaurants found matching your criteria.")
          print("Try adjusting your filters:")
          print(f"  --reviews {min_reviews // 2}")
          print(f"  --rating {max(min_rating - 0.2, 3.0):.1f}")
          print(f"  --radius {min(radius_miles + 10, 31)}")
          return
      print(f"\nTop {min(len(restaurants), MAX_DISPLAY)} restaurants:\n")
      for idx, restaurant in enumerate(restaurants[:MAX_DISPLAY], 1): ...
  \<close>
  The global \<^verbatim>\<open>MAX_DISPLAY\<close> is the first argument. The function returns
  \<^verbatim>\<open>None\<close> on every path; its value here is the lines it prints.
\<close>

definition display_header :: "place list \<Rightarrow> line \<Rightarrow> real \<Rightarrow> real \<Rightarrow> int \<Rightarrow> int \<Rightarrow> event list" where
  "display_header restaurants location_name radius_miles min_rating min_reviews total_fetched =
     [Print ([Str newline, Str ''Restaurants near ''] @ location_name),
      Print [Str ''Search radius: '', Num radius_miles, Str '' miles''],
      Print [Str ''Filters: Rating >= '', Num min_rating, Str '', Reviews >= '', Dec min_reviews],
      Print [Str ''Fetched: '', Dec total_fetched, Str '' | Matched: '',
             Dec (int (length restaurants))],
      Print [Str (replicate 70 CHR ''-'')]]"

definition display_results ::
  "int \<Rightarrow> place list \<Rightarrow> line \<Rightarrow> real \<Rightarrow> real \<Rightarrow> int \<Rightarrow> int \<Rightarrow> bool \<Rightarrow> event list" where
  "display_results MAX_DISPLAY restaurants location_name radius_miles min_rating min_reviews
                   total_fetched show_types =
     display_header restaurants location_name radius_miles min_rating min_reviews total_fetched
     @ (if restaurants = [] then
          [Print [Str newline, Str ''No restaurants found matching your criteria.''],
           Print [Str ''Try adjusting your filters:''],
           Print [Str ''  --reviews '', Dec (min_reviews div 2)],
           Print [Str ''  --rating '', Fixed 1 (max (min_rating - 0.2) 3.0)],
           Print [Str ''  --radius '', Num (min (radius_miles + 10) 31)]]
        else
          [Print [Str newline, Str ''Top '',
                  Dec (min (int (length restaurants)) MAX_DISPLAY),
                  Str '' restaurants:'', Str newline]]
          @ concat (map (display_entry show_types)
                        (List.enumerate 1 (slice_to MAX_DISPLAY restaurants))))"

section \<open>The pipeline\<close>

text \<open>
  The parsed command line, as \<^verbatim>\<open>parse_arguments\<close> returns it.
\<close>

record args =
  arg_api_key :: string
  arg_city :: "string option"
  arg_coords :: "string option"
  arg_radius :: real
  arg_rating :: real
  arg_reviews :: int
  arg_show_types :: bool
  arg_limit :: int

text \<open>
  \<^verbatim>\<open>
  def main():
      args = parse_arguments()
      lat, lng, location_name = get_location(args.city, args.coords)
      print(f"Location: {location_name} ({lat:.4f}, {lng:.4f})")
      print(f"Searching restaurants within {args.radius} miles...")
      print("  Fetching page 1/3...")
      all_restaurants = fetch_all_restaurants(lat, lng, args.radius, args.api_key)
      print(f"  Retrieved {len(all_restaurants)} true restaurants")
      filtered_restaurants = filter_and_rank_restaurants(
          all_restaurants, args.rating, args.reviews)
      global MAX_DISPLAY
      MAX_DISPLAY = args.limit
      display_results(filtered_restaurants, location_name, args.radius,
                      args.rating, args.reviews, len(all_restaurants), args.show_types)
  \<close>
  \<open>main\<close> starts from the parsed arguments; the builtin \<open>float\<close>, the float operations
  \<open>fl\<close> and the remote service are its parameters. Its value is the events of the run and
  either the error that ended it or \<open>()\<close> when it returns.
\<close>

definition main ::
  "(string \<Rightarrow> pyfloat option) \<Rightarrow> float_ops \<Rightarrow> api \<Rightarrow> args \<Rightarrow> event list \<times> (error + unit)" where
  "main float fl api args =
     (case get_location float (arg_city args) (arg_coords args) of
        (out, Inl e) \<Rightarrow> (out, Inl e)
      | (out, Inr (lat, lng, location_name)) \<Rightarrow>
          (let out = out @ [Print ([Str ''Location: ''] @ location_name
                                   @ [Str '' ('', Fixed 4 lat, Str '', '', Fixed 4 lng, Str '')'']),
                            Print [Str ''Searching restaurants within '', Num (arg_radius args),
                                   Str '' miles...''],
                            Print [Str ''  Fetching page 1/3...'']]
           in case fetch_all_restaurants api lat lng (arg_radius args) (arg_api_key args) of
                (all_restaurants, fetched) \<Rightarrow>
                  (let out = out @ fetched
                             @ [Print [Str ''  Retrieved '', Dec (int (length all_restaurants)),
                                       Str '' true restaurants'']];
                       filtered_restaurants =
                         filter_and_rank_restaurants fl all_restaurants (arg_rating args)
                                                     (arg_reviews args)
                   in (out @ display_results (arg_limit args) filtered_restaurants location_name
                               (arg_radius args) (arg_rating args) (arg_reviews args)
                               (int (length all_restaurants)) (arg_show_types args),
                       Inr ()))))"

section \<open>Observations on a run\<close>

text \<open>The parameters of the requests issued in a sequence of events, in order.\<close>

fun requests :: "event list \<Rightarrow> params list" where
  "requests [] = []"
| "requests (HttpGet p # es) = p # requests es"
| "requests (e # es) = requests es"

text \<open>The events other than printed lines: the waits and the requests.\<close>

fun actions :: "event list \<Rightarrow> event list" where
  "actions [] = []"
| "actions (Print l # es) = actions es"
| "actions (e # es) = e # actions es"

text \<open>
  The parts of one pass through the loop body, named for the proofs: what precedes the
  request of a page, the test on the status, the warning for a refused request, the
  restaurants of a page and the note on the results dropped.
\<close>

definition page_prefix :: "nat \<Rightarrow> event list" where
  "page_prefix page_count =
     (if page_count = 0 then []
      else [Print [Str ''  Fetching page '', Dec (int page_count + 1), Str ''/3...''], Sleep 2])"

definition status_ok :: "response \<Rightarrow> bool" where
  "status_ok data = (status data = Some ''OK'' \<or> status data = Some ''ZERO_RESULTS'')"

definition status_warning :: "response \<Rightarrow> event list" where
  "status_warning data =
     [Print [Str ''Warning: API returned status '', Str quote,
             Str (format_opt (status data)), Str quote]]
     @ (if truthy (error_message data)
        then [Print [Str ''Details: '', Str (get (error_message data) [])]]
        else [])"

definition true_restaurants :: "response \<Rightarrow> place list" where
  "true_restaurants data = filter is_true_restaurant (get (results data) [])"

definition filtered_note :: "response \<Rightarrow> event list" where
  "filtered_note data =
     (if length (true_restaurants data) < length (get (results data) [])
      then [Print [Str ''    (Filtered out '',
                   Dec (int (length (get (results data) []))
                        - int (length (true_restaurants data))),
                   Str '' non-restaurant results)'']]
      else [])"

text \<open>
  The waits and requests of a run that issues the requests \<open>ps\<close>, the first of them
  for the page numbered \<open>pc\<close>: a wait of 2 before every page but page 0.
\<close>

fun steps :: "nat \<Rightarrow> params list \<Rightarrow> event list" where
  "steps pc [] = []"
| "steps pc (p # ps) = (if pc = 0 then [] else [Sleep 2]) @ [HttpGet p] @ steps (Suc pc) ps"

text \<open>
  Request \<open>j\<close> with parameters \<open>p\<close> was answered with a good status and a
  continuation token, and \<open>q\<close> carries that token; a list of requests in which every
  request but the last is continued by the next; and the state at the top of the loop
  after \<open>pc\<close> such requests.
\<close>

definition continued :: "api \<Rightarrow> nat \<Rightarrow> params \<Rightarrow> params \<Rightarrow> bool" where
  "continued api j p q =
     (\<exists>d. api j p = Json d \<and> status_ok d \<and> truthy (next_page_token d)
          \<and> pagetoken q = next_page_token d)"

definition chain :: "api \<Rightarrow> params list \<Rightarrow> bool" where
  "chain api rs = (\<forall>j. Suc j < length rs \<longrightarrow> continued api j (rs ! j) (rs ! Suc j))"

definition ready :: "api \<Rightarrow> nat \<Rightarrow> string option \<Rightarrow> params list \<Rightarrow> bool" where
  "ready api pc tok rs =
     (length rs = pc \<and> chain api rs
      \<and> (0 < pc \<longrightarrow> (\<exists>d. api (pc - 1) (rs ! (pc - 1)) = Json d \<and> status_ok d
                         \<and> truthy (next_page_token d) \<and> tok = next_page_token d)))"

section \<open>Example services and arguments\<close>

text \<open>
  Three remote services to run the program against: one that cannot be reached, one that
  always answers with an empty page and a continuation token, and one that serves a page of
  two places, a restaurant and a hotel, and then refuses for quota.
\<close>

definition api_down :: api where
  "api_down n p = RequestException ''Connection timed out''"

definition api_endless :: api where
  "api_endless n p = Json \<lparr>status = Some ''OK'', error_message = None, results = Some [],
                            next_page_token = Some ''next''\<rparr>"

definition page_one :: response where
  "page_one =
     \<lparr>status = Some ''OK'', error_message = None,
      results = Some [\<lparr>name = Some ''Canlis'', rating = Some 4.8, user_ratings_total = Some 1000,
                       types = Some [''restaurant'', ''food''], vicinity = Some ''2576 Aurora Ave N''\<rparr>,
                      \<lparr>name = Some ''Harbor Hotel Restaurant'', rating = Some 4.9,
                       user_ratings_total = Some 2000,
                       types = Some [''lodging'', ''restaurant''], vicinity = None\<rparr>],
      next_page_token = Some ''page2''\<rparr>"

definition over_limit :: response where
  "over_limit = \<lparr>status = Some ''OVER_QUERY_LIMIT'', error_message = Some ''quota exceeded'',
                  results = None, next_page_token = None\<rparr>"

definition api_one_page :: api where
  "api_one_page n p = (if n = 0 then Json page_one else Json over_limit)"

text \<open>The arguments of a run with the defaults of the command line.\<close>

definition default_args :: args where
  "default_args = \<lparr>arg_api_key = ''KEY'', arg_city = None, arg_coords = None, arg_radius = 20,
                    arg_rating = 4.7, arg_reviews = 300, arg_show_types = False, arg_limit = 20\<rparr>"

section \<open>Properties of the ranker\<close>

lemma sorted_reverse_mset: "mset (sorted_reverse k xs) = mset xs"
  by (simp add: sorted_reverse_def)

lemma sorted_reverse_descending:
  "sorted_wrt (\<lambda>a b. k a \<ge> k b) (sorted_reverse k xs)"
proof -
  have "sorted (map k (sort_key k (rev xs)))"
    by (rule sorted_sort_key)
  then have "sorted_wrt (\<lambda>a b. k a \<le> k b) (sort_key k (rev xs))"
    by (simp add: sorted_map)
  then have "sorted_wrt (\<lambda>b a. k a \<le> k b) (rev (sort_key k (rev xs)))"
    by (simp add: sorted_wrt_rev)
  then show ?thesis
    by (simp add: sorted_reverse_def)
qed

lemma sorted_reverse_stable:
  "filter (\<lambda>y. k y = v) (sorted_reverse k xs) = filter (\<lambda>y. k y = v) xs"
proof -
  have "filter (\<lambda>y. k y = v) (sorted_reverse k xs)
        = rev (filter (\<lambda>y. k y = v) (sort_key k (rev xs)))"
    by (simp add: sorted_reverse_def rev_filter)
  also have "\<dots> = rev (filter (\<lambda>y. k y = v) (rev xs))"
    by (simp only: sort_key_stable)
  also have "\<dots> = filter (\<lambda>y. k y = v) xs"
    by (simp add: rev_filter)
  finally show ?thesis .
qed

lemma log10_1000: "log 10 (1000::real) = 3"
proof -
  have "log 10 ((10::real) ^ 3) = real 3"
    by (rule log_pow_cancel) simp_all
  then show ?thesis by simp
qed

lemma score_zero_low_reviews:
  "get (user_ratings_total r) 1 \<le> 1 \<Longrightarrow> calculate_score r = 0"
  by (simp add: calculate_score_def Let_def max_def)

lemma score_pos:
  assumes "get (rating r) 0 \<noteq> 0" and "2 \<le> get (user_ratings_total r) 1"
  shows "0 < calculate_score r"
proof -
  let ?n = "get (user_ratings_total r) 1"
  have "max ?n 1 = ?n" using assms(2) by simp
  moreover have "1 < real_of_int ?n" using assms(2) by simp
  then have "0 < log 10 (real_of_int ?n)" by simp
  moreover have "0 < (get (rating r) 0)\<^sup>2" using assms(1) by simp
  ultimately show ?thesis
    by (simp add: calculate_score_def Let_def)
qed

text \<open>
  Claim C1. The composite score is the square of the rating times the base-10 logarithm of
  the larger of the review count and 1, a missing rating counting as 0 and a missing review
  count as 1. A rating of 4.8 with 1000 reviews scores 69.12 (exactly, in real arithmetic).
\<close>

theorem calculate_score_formula:
  "calculate_score r =
     (case rating r of None \<Rightarrow> 0 | Some x \<Rightarrow> x)\<^sup>2
       * log 10 (real_of_int (max (case user_ratings_total r of None \<Rightarrow> 1 | Some n \<Rightarrow> n) 1))
   \<and> (rating r = Some 4.8 \<and> user_ratings_total r = Some 1000 \<longrightarrow> calculate_score r = 69.12)"
proof
  show "calculate_score r =
     (case rating r of None \<Rightarrow> 0 | Some x \<Rightarrow> x)\<^sup>2
       * log 10 (real_of_int (max (case user_ratings_total r of None \<Rightarrow> 1 | Some n \<Rightarrow> n) 1))"
    by (simp add: calculate_score_def get_def Let_def)
  show "rating r = Some 4.8 \<and> user_ratings_total r = Some 1000 \<longrightarrow> calculate_score r = 69.12"
  proof
    assume h: "rating r = Some 4.8 \<and> user_ratings_total r = Some 1000"
    have "calculate_score r = (4.8::real)\<^sup>2 * log 10 1000"
      using h by (simp add: calculate_score_def get_def Let_def)
    also have "\<dots> = 69.12"
      by (simp add: log10_1000 power2_eq_square)
    finally show "calculate_score r = 69.12" .
  qed
qed

text \<open>The score of claim C1 at a concrete place.\<close>

theorem calculate_score_formula_witness:
  "calculate_score \<lparr>name = Some ''Canlis'', rating = Some 4.8, user_ratings_total = Some 1000,
                     types = None, vicinity = None\<rparr> = 69.12"
  using calculate_score_formula
    [of "\<lparr>name = Some ''Canlis'', rating = Some 4.8, user_ratings_total = Some 1000,
          types = None, vicinity = None\<rparr>"]
  by simp

lemma calculate_score_fl_exact: "calculate_score_fl exact_ops r = calculate_score r"
  by (simp add: calculate_score_fl_def calculate_score_def exact_ops_def)

text \<open>
  Claim C2. In every float arithmetic, the ranked list holds exactly the items whose rating
  and review count (0 when missing) reach the thresholds, each as often as the input has
  it; it is in descending order of the computed score; and the items of any one computed
  score are in their input order.
\<close>

theorem filter_and_rank_spec:
  "mset (filter_and_rank_restaurants fl restaurants min_rating min_reviews)
     = mset (filter (\<lambda>r. (case rating r of None \<Rightarrow> 0 | Some x \<Rightarrow> x) \<ge> min_rating
                        \<and> (case user_ratings_total r of None \<Rightarrow> 0 | Some n \<Rightarrow> n) \<ge> min_reviews)
                   restaurants)
   \<and> sorted_wrt (\<lambda>a b. calculate_score_fl fl a \<ge> calculate_score_fl fl b)
        (filter_and_rank_restaurants fl restaurants min_rating min_reviews)
   \<and> (\<forall>v. filter (\<lambda>r. calculate_score_fl fl r = v)
               (filter_and_rank_restaurants fl restaurants min_rating min_reviews)
           = filter (\<lambda>r. calculate_score_fl fl r = v)
               (filter (\<lambda>r. (case rating r of None \<Rightarrow> 0 | Some x \<Rightarrow> x) \<ge> min_rating
                        \<and> (case user_ratings_total r of None \<Rightarrow> 0 | Some n \<Rightarrow> n) \<ge> min_reviews)
                   restaurants))"
  by (simp add: filter_and_rank_restaurants_def get_def Let_def
        sorted_reverse_mset sorted_reverse_descending sorted_reverse_stable)

lemma rank_example:
  "filter_and_rank_restaurants exact_ops
        [\<lparr>name = Some ''A'', rating = Some 4, user_ratings_total = Some 100, types = None, vicinity = None\<rparr>,
         \<lparr>name = Some ''B'', rating = Some 5, user_ratings_total = None, types = None, vicinity = None\<rparr>,
         \<lparr>name = Some ''C'', rating = Some 4.5, user_ratings_total = Some 1000, types = None, vicinity = None\<rparr>]
        4.2 0
   = [\<lparr>name = Some ''C'', rating = Some 4.5, user_ratings_total = Some 1000, types = None, vicinity = None\<rparr>,
      \<lparr>name = Some ''B'', rating = Some 5, user_ratings_total = None, types = None, vicinity = None\<rparr>]"
  by (simp add: filter_and_rank_restaurants_def sorted_reverse_def calculate_score_fl_exact
        calculate_score_def get_def log10_1000)

text \<open>
  Claim C2 on three places, in exact arithmetic: the first misses the rating threshold, the
  second has no review count and scores 0, the third scores 60.75 and comes first.
\<close>

theorem filter_and_rank_spec_witness:
  "filter_and_rank_restaurants exact_ops
        [\<lparr>name = Some ''A'', rating = Some 4, user_ratings_total = Some 100, types = None, vicinity = None\<rparr>,
         \<lparr>name = Some ''B'', rating = Some 5, user_ratings_total = None, types = None, vicinity = None\<rparr>,
         \<lparr>name = Some ''C'', rating = Some 4.5, user_ratings_total = Some 1000, types = None, vicinity = None\<rparr>]
        4.2 0
   = [\<lparr>name = Some ''C'', rating = Some 4.5, user_ratings_total = Some 1000, types = None, vicinity = None\<rparr>,
      \<lparr>name = Some ''B'', rating = Some 5, user_ratings_total = None, types = None, vicinity = None\<rparr>]
   \<and> sorted_wrt (\<lambda>a b. calculate_score_fl exact_ops a \<ge> calculate_score_fl exact_ops b)
        [\<lparr>name = Some ''C'', rating = Some 4.5, user_ratings_total = Some 1000, types = None, vicinity = None\<rparr>,
         \<lparr>name = Some ''B'', rating = Some 5, user_ratings_total = None, types = None, vicinity = None\<rparr>]"
proof -
  have "sorted_wrt (\<lambda>a b. calculate_score_fl exact_ops a \<ge> calculate_score_fl exact_ops b)
     (filter_and_rank_restaurants exact_ops
        [\<lparr>name = Some ''A'', rating = Some 4, user_ratings_total = Some 100, types = None, vicinity = None\<rparr>,
         \<lparr>name = Some ''B'', rating = Some 5, user_ratings_total = None, types = None, vicinity = None\<rparr>,
         \<lparr>name = Some ''C'', rating = Some 4.5, user_ratings_total = Some 1000, types = None, vicinity = None\<rparr>]
        4.2 0)"
    using filter_and_rank_spec
      [of exact_ops
          "[\<lparr>name = Some ''A'', rating = Some 4, user_ratings_total = Some 100, types = None, vicinity = None\<rparr>,
            \<lparr>name = Some ''B'', rating = Some 5, user_ratings_total = None, types = None, vicinity = None\<rparr>,
            \<lparr>name = Some ''C'', rating = Some 4.5, user_ratings_total = Some 1000, types = None, vicinity = None\<rparr>]"
          "4.2" 0]
    by blast
  then show ?thesis
    unfolding rank_example by (intro conjI refl)
qed

text \<open>
  Two places whose exact scores are equal (the square of 4.8 times 9 and the square of 3.6
  times 16 are both 207.36, times the logarithm of 2): their order in the ranked list is
  the order of their computed scores, so it follows the rounding of the machine and not
  the tie of the exact values.
\<close>

lemma exact_scores_tie:
  "calculate_score \<lparr>name = Some ''A'', rating = Some 4.8, user_ratings_total = Some 512, types = None, vicinity = None\<rparr>
   = calculate_score \<lparr>name = Some ''B'', rating = Some 3.6, user_ratings_total = Some 65536, types = None, vicinity = None\<rparr>"
proof -
  have a: "log 10 (512::real) = 9 * log 10 2"
    using log_nat_power [of 2 10 9] by simp
  have b: "log 10 (65536::real) = 16 * log 10 2"
    using log_nat_power [of 2 10 16] by simp
  show ?thesis
    by (simp add: calculate_score_def get_def a b power2_eq_square)
qed

lemma computed_scores_decide:
  "calculate_score_fl fl \<lparr>name = Some ''A'', rating = Some 4.8, user_ratings_total = Some 512, types = None, vicinity = None\<rparr>
     < calculate_score_fl fl \<lparr>name = Some ''B'', rating = Some 3.6, user_ratings_total = Some 65536, types = None, vicinity = None\<rparr>
   \<Longrightarrow> filter_and_rank_restaurants fl
         [\<lparr>name = Some ''A'', rating = Some 4.8, user_ratings_total = Some 512, types = None, vicinity = None\<rparr>,
          \<lparr>name = Some ''B'', rating = Some 3.6, user_ratings_total = Some 65536, types = None, vicinity = None\<rparr>]
         3 0
       = [\<lparr>name = Some ''B'', rating = Some 3.6, user_ratings_total = Some 65536, types = None, vicinity = None\<rparr>,
          \<lparr>name = Some ''A'', rating = Some 4.8, user_ratings_total = Some 512, types = None, vicinity = None\<rparr>]"
  "calculate_score_fl fl \<lparr>name = Some ''A'', rating = Some 4.8, user_ratings_total = Some 512, types = None, vicinity = None\<rparr>
     = calculate_score_fl fl \<lparr>name = Some ''B'', rating = Some 3.6, user_ratings_total = Some 65536, types = None, vicinity = None\<rparr>
   \<Longrightarrow> filter_and_rank_restaurants fl
         [\<lparr>name = Some ''A'', rating = Some 4.8, user_ratings_total = Some 512, types = None, vicinity = None\<rparr>,
          \<lparr>name = Some ''B'', rating = Some 3.6, user_ratings_total = Some 65536, types = None, vicinity = None\<rparr>]
         3 0
       = [\<lparr>name = Some ''A'', rating = Some 4.8, user_ratings_total = Some 512, types = None, vicinity = None\<rparr>,
          \<lparr>name = Some ''B'', rating = Some 3.6, user_ratings_total = Some 65536, types = None, vicinity = None\<rparr>]"
  by (simp_all add: filter_and_rank_restaurants_def sorted_reverse_def get_def)

lemma sorted_wrt_desc_nth:
  fixes k :: "'a \<Rightarrow> 'b::linorder"
  assumes "sorted_wrt (\<lambda>a b. k a \<ge> k b) ys" and "i < length ys" and "j < length ys"
      and "k (ys ! i) < k (ys ! j)"
  shows "j < i"
proof (rule ccontr)
  assume "\<not> j < i"
  then have "i = j \<or> i < j" by auto
  then show False
  proof
    assume "i = j" with assms(4) show False by simp
  next
    assume "i < j"
    then have "k (ys ! i) \<ge> k (ys ! j)"
      using assms(1,3) by (simp add: sorted_wrt_iff_nth_less)
    with assms(4) show False by simp
  qed
qed

lemma filter_low_via_score:
  assumes "\<And>r. r \<in> set xs \<Longrightarrow> P r \<Longrightarrow> k r = v"
      and "set ys = set xs"
      and "filter (\<lambda>r. k r = v) ys = filter (\<lambda>r. k r = v) xs"
  shows "filter P ys = filter P xs"
proof -
  have "filter P zs = filter P (filter (\<lambda>r. k r = v) zs)" if "set zs = set xs" for zs
  proof -
    have "filter P zs = filter (\<lambda>r. k r = v \<and> P r) zs"
      using assms(1) that by (intro filter_cong) auto
    then show ?thesis by simp
  qed
  then have "filter P ys = filter P (filter (\<lambda>r. k r = v) ys)"
        and "filter P xs = filter P (filter (\<lambda>r. k r = v) xs)"
    using assms(2) by blast+
  then show ?thesis using assms(3) by simp
qed

lemma set_sorted_reverse: "set (sorted_reverse k xs) = set xs"
  by (simp add: sorted_reverse_def)

lemma low_review_rank_fl:
  assumes sign: "\<forall>x \<in> set restaurants.
           (calculate_score x = 0 \<longrightarrow> calculate_score_fl fl x = 0)
           \<and> (0 < calculate_score x \<longrightarrow> 0 < calculate_score_fl fl x)"
  shows "(\<forall>x \<in> set restaurants. get (user_ratings_total x) 1 \<le> 1 \<longrightarrow> calculate_score_fl fl x = 0)
   \<and> (\<forall>i j. i < length (filter_and_rank_restaurants fl restaurants min_rating min_reviews)
              \<and> j < length (filter_and_rank_restaurants fl restaurants min_rating min_reviews)
              \<and> get (user_ratings_total (filter_and_rank_restaurants fl restaurants min_rating min_reviews ! i)) 1 \<le> 1
              \<and> 0 < get (rating (filter_and_rank_restaurants fl restaurants min_rating min_reviews ! j)) 0
              \<and> 2 \<le> get (user_ratings_total (filter_and_rank_restaurants fl restaurants min_rating min_reviews ! j)) 1
              \<longrightarrow> j < i)
      \<and> filter (\<lambda>r. get (user_ratings_total r) 1 \<le> 1) (filter_and_rank_restaurants fl restaurants min_rating min_reviews)
        = filter (\<lambda>r. get (user_ratings_total r) 1 \<le> 1)
           (filter (\<lambda>r. get (rating r) 0 \<ge> min_rating \<and> get (user_ratings_total r) 0 \<ge> min_reviews)
              restaurants)"
proof (intro conjI ballI allI impI)
  let ?ys = "filter_and_rank_restaurants fl restaurants min_rating min_reviews"
  let ?kept = "filter (\<lambda>r. get (rating r) 0 \<ge> min_rating
                          \<and> get (user_ratings_total r) 0 \<ge> min_reviews) restaurants"
  have ys: "?ys = sorted_reverse (calculate_score_fl fl) ?kept"
    by (simp add: filter_and_rank_restaurants_def Let_def)
  have sub: "set ?ys \<subseteq> set restaurants"
    unfolding ys by (auto simp: set_sorted_reverse)
  have zero: "calculate_score_fl fl x = 0"
    if "x \<in> set restaurants" "get (user_ratings_total x) 1 \<le> 1" for x
    using that sign score_zero_low_reviews [of x] by blast
  have pos: "0 < calculate_score_fl fl x"
    if "x \<in> set restaurants" "0 < get (rating x) 0" "2 \<le> get (user_ratings_total x) 1" for x
  proof -
    have "0 < calculate_score x"
      using that by (intro score_pos) auto
    with that(1) sign show ?thesis by blast
  qed
  show "calculate_score_fl fl x = 0"
    if "x \<in> set restaurants" "get (user_ratings_total x) 1 \<le> 1" for x
    using that by (rule zero)
  show "j < i"
    if h: "i < length ?ys \<and> j < length ?ys
           \<and> get (user_ratings_total (?ys ! i)) 1 \<le> 1
           \<and> 0 < get (rating (?ys ! j)) 0
           \<and> 2 \<le> get (user_ratings_total (?ys ! j)) 1" for i j
  proof -
    have mem: "?ys ! i \<in> set restaurants" "?ys ! j \<in> set restaurants"
      using h sub nth_mem by blast+
    have "calculate_score_fl fl (?ys ! i) = 0"
      using h mem(1) by (intro zero) auto
    moreover have "0 < calculate_score_fl fl (?ys ! j)"
      using h mem(2) by (intro pos) auto
    ultimately have "calculate_score_fl fl (?ys ! i) < calculate_score_fl fl (?ys ! j)"
      by simp
    moreover have "sorted_wrt (\<lambda>a b. calculate_score_fl fl a \<ge> calculate_score_fl fl b) ?ys"
      unfolding ys by (rule sorted_reverse_descending)
    ultimately show ?thesis
      using h sorted_wrt_desc_nth [of "calculate_score_fl fl" ?ys i j] by blast
  qed
  show "filter (\<lambda>r. get (user_ratings_total r) 1 \<le> 1) ?ys
        = filter (\<lambda>r. get (user_ratings_total r) 1 \<le> 1) ?kept"
  proof (rule filter_low_via_score [where k = "calculate_score_fl fl" and v = 0])
    show "calculate_score_fl fl r = 0"
      if "r \<in> set ?kept" "get (user_ratings_total r) 1 \<le> 1" for r
      using that by (intro zero) auto
    show "set ?ys = set ?kept"
      unfolding ys by (rule set_sorted_reverse)
    show "filter (\<lambda>r. calculate_score_fl fl r = 0) ?ys
          = filter (\<lambda>r. calculate_score_fl fl r = 0) ?kept"
      unfolding ys by (rule sorted_reverse_stable)
  qed
qed

text \<open>
  Claim C10. An item whose review count is missing or at most 1 scores 0. In the list
  ranked by the exact score every such item comes after every item with a positive rating
  and at least 2 reviews, and these items are among themselves in their input order. The
  same holds of the list ranked by the computed score of any float arithmetic that, on the
  places of the input, gives 0 where the exact score is 0 and a positive score where the
  exact score is positive; there the computed score of such an item is 0 as well.
\<close>

theorem low_review_items_rank_last:
  "(get (user_ratings_total r) 1 \<le> 1 \<longrightarrow> calculate_score r = 0)
   \<and> (\<forall>i j. i < length (filter_and_rank_restaurants exact_ops restaurants min_rating min_reviews)
              \<and> j < length (filter_and_rank_restaurants exact_ops restaurants min_rating min_reviews)
              \<and> get (user_ratings_total (filter_and_rank_restaurants exact_ops restaurants min_rating min_reviews ! i)) 1 \<le> 1
              \<and> 0 < get (rating (filter_and_rank_restaurants exact_ops restaurants min_rating min_reviews ! j)) 0
              \<and> 2 \<le> get (user_ratings_total (filter_and_rank_restaurants exact_ops restaurants min_rating min_reviews ! j)) 1
              \<longrightarrow> j < i)
      \<and> filter (\<lambda>r. get (user_ratings_total r) 1 \<le> 1) (filter_and_rank_restaurants exact_ops restaurants min_rating min_reviews)
        = filter (\<lambda>r. get (user_ratings_total r) 1 \<le> 1)
           (filter (\<lambda>r. get (rating r) 0 \<ge> min_rating \<and> get (user_ratings_total r) 0 \<ge> min_reviews)
              restaurants)
   \<and> ((\<forall>x \<in> set restaurants.
               (calculate_score x = 0 \<longrightarrow> calculate_score_fl fl x = 0)
               \<and> (0 < calculate_score x \<longrightarrow> 0 < calculate_score_fl fl x))
       \<longrightarrow> (\<forall>x \<in> set restaurants.
              get (user_ratings_total x) 1 \<le> 1 \<longrightarrow> calculate_score_fl fl x = 0)
          \<and> (\<forall>i j. i < length (filter_and_rank_restaurants fl restaurants min_rating min_reviews)
                     \<and> j < length (filter_and_rank_restaurants fl restaurants min_rating min_reviews)
                     \<and> get (user_ratings_total (filter_and_rank_restaurants fl restaurants min_rating min_reviews ! i)) 1 \<le> 1
                     \<and> 0 < get (rating (filter_and_rank_restaurants fl restaurants min_rating min_reviews ! j)) 0
                     \<and> 2 \<le> get (user_ratings_total (filter_and_rank_restaurants fl restaurants min_rating min_reviews ! j)) 1
                     \<longrightarrow> j < i)
             \<and> filter (\<lambda>r. get (user_ratings_total r) 1 \<le> 1) (filter_and_rank_restaurants fl restaurants min_rating min_reviews)
               = filter (\<lambda>r. get (user_ratings_total r) 1 \<le> 1)
                  (filter (\<lambda>r. get (rating r) 0 \<ge> min_rating \<and> get (user_ratings_total r) 0 \<ge> min_reviews)
                     restaurants))"
proof -
  have exact: "\<forall>x \<in> set restaurants.
           (calculate_score x = 0 \<longrightarrow> calculate_score_fl exact_ops x = 0)
           \<and> (0 < calculate_score x \<longrightarrow> 0 < calculate_score_fl exact_ops x)"
    by (simp add: calculate_score_fl_exact)
  note ex = low_review_rank_fl [OF exact, of min_rating min_reviews, THEN conjunct2]
  note gen = low_review_rank_fl [of restaurants fl min_rating min_reviews]
  show ?thesis
    apply (intro conjI impI)
    subgoal by (erule score_zero_low_reviews)
    subgoal by (rule ex [THEN conjunct1])
    subgoal by (rule ex [THEN conjunct2])
    subgoal by (drule gen, erule conjunct1)
    subgoal by (drule gen, drule conjunct2, erule conjunct1)
    subgoal by (drule gen, drule conjunct2, erule conjunct2)
    done
qed

lemma rank_low_example:
  "filter_and_rank_restaurants exact_ops
     [\<lparr>name = Some ''A'', rating = Some 5, user_ratings_total = None, types = None, vicinity = None\<rparr>,
      \<lparr>name = Some ''B'', rating = Some 4, user_ratings_total = Some 1, types = None, vicinity = None\<rparr>,
      \<lparr>name = Some ''C'', rating = Some 4.5, user_ratings_total = Some 1000, types = None, vicinity = None\<rparr>]
     3 0
   = [\<lparr>name = Some ''C'', rating = Some 4.5, user_ratings_total = Some 1000, types = None, vicinity = None\<rparr>,
      \<lparr>name = Some ''A'', rating = Some 5, user_ratings_total = None, types = None, vicinity = None\<rparr>,
      \<lparr>name = Some ''B'', rating = Some 4, user_ratings_total = Some 1, types = None, vicinity = None\<rparr>]"
  by (simp add: filter_and_rank_restaurants_def sorted_reverse_def calculate_score_fl_exact
        calculate_score_def get_def log10_1000)

text \<open>
  Claim C10 on three places that pass the filter, in exact arithmetic: the two with at most
  one review score 0 and come, in their input order, after the place with 1000 reviews.
\<close>

theorem low_review_items_rank_last_witness:
  "calculate_score \<lparr>name = Some ''A'', rating = Some 5, user_ratings_total = None, types = None, vicinity = None\<rparr> = 0
   \<and> calculate_score_fl exact_ops \<lparr>name = Some ''A'', rating = Some 5, user_ratings_total = None, types = None, vicinity = None\<rparr> = 0
   \<and> get (user_ratings_total
          (filter_and_rank_restaurants exact_ops
             [\<lparr>name = Some ''A'', rating = Some 5, user_ratings_total = None, types = None, vicinity = None\<rparr>,
              \<lparr>name = Some ''B'', rating = Some 4, user_ratings_total = Some 1, types = None, vicinity = None\<rparr>,
              \<lparr>name = Some ''C'', rating = Some 4.5, user_ratings_total = Some 1000, types = None, vicinity = None\<rparr>]
             3 0 ! 1)) 1 \<le> 1
   \<and> 2 \<le> get (user_ratings_total
          (filter_and_rank_restaurants exact_ops
             [\<lparr>name = Some ''A'', rating = Some 5, user_ratings_total = None, types = None, vicinity = None\<rparr>,
              \<lparr>name = Some ''B'', rating = Some 4, user_ratings_total = Some 1, types = None, vicinity = None\<rparr>,
              \<lparr>name = Some ''C'', rating = Some 4.5, user_ratings_total = Some 1000, types = None, vicinity = None\<rparr>]
             3 0 ! 0)) 1
   \<and> filter (\<lambda>r. get (user_ratings_total r) 1 \<le> 1)
        (filter_and_rank_restaurants exact_ops
           [\<lparr>name = Some ''A'', rating = Some 5, user_ratings_total = None, types = None, vicinity = None\<rparr>,
            \<lparr>name = Some ''B'', rating = Some 4, user_ratings_total = Some 1, types = None, vicinity = None\<rparr>,
            \<lparr>name = Some ''C'', rating = Some 4.5, user_ratings_total = Some 1000, types = None, vicinity = None\<rparr>]
           3 0)
     = [\<lparr>name = Some ''A'', rating = Some 5, user_ratings_total = None, types = None, vicinity = None\<rparr>,
        \<lparr>name = Some ''B'', rating = Some 4, user_ratings_total = Some 1, types = None, vicinity = None\<rparr>]"
proof -
  let ?a = "\<lparr>name = Some ''A'', rating = Some 5, user_ratings_total = None, types = None, vicinity = None\<rparr>"
  let ?xs = "[\<lparr>name = Some ''A'', rating = Some 5, user_ratings_total = None, types = None, vicinity = None\<rparr>,
              \<lparr>name = Some ''B'', rating = Some 4, user_ratings_total = Some 1, types = None, vicinity = None\<rparr>,
              \<lparr>name = Some ''C'', rating = Some 4.5, user_ratings_total = Some 1000, types = None, vicinity = None\<rparr>]"
  note t = low_review_items_rank_last [of ?a ?xs 3 0 exact_ops]
  have sign: "\<forall>x \<in> set ?xs.
           (calculate_score x = 0 \<longrightarrow> calculate_score_fl exact_ops x = 0)
           \<and> (0 < calculate_score x \<longrightarrow> 0 < calculate_score_fl exact_ops x)"
    by (simp add: calculate_score_fl_exact)
  have "get (user_ratings_total ?a) 1 \<le> 1"
    by (simp add: get_def)
  with t [THEN conjunct1] have a: "calculate_score ?a = 0"
    by (rule mp)
  have b: "\<forall>x \<in> set ?xs. get (user_ratings_total x) 1 \<le> 1 \<longrightarrow> calculate_score_fl exact_ops x = 0"
    using t [THEN conjunct2, THEN conjunct2, THEN conjunct2, THEN mp, OF sign]
    by (rule conjunct1)
  have b': "calculate_score_fl exact_ops ?a = 0"
    using b by (simp add: get_def)
  have low: "get (user_ratings_total (filter_and_rank_restaurants exact_ops ?xs 3 0 ! 1)) 1 \<le> 1"
    and high: "2 \<le> get (user_ratings_total (filter_and_rank_restaurants exact_ops ?xs 3 0 ! 0)) 1"
    unfolding rank_low_example by (simp_all add: get_def)
  have "filter (\<lambda>r. get (user_ratings_total r) 1 \<le> 1) (filter_and_rank_restaurants exact_ops ?xs 3 0)
        = filter (\<lambda>r. get (user_ratings_total r) 1 \<le> 1)
            (filter (\<lambda>r. get (rating r) 0 \<ge> 3 \<and> get (user_ratings_total r) 0 \<ge> 0) ?xs)"
    by (rule t [THEN conjunct2, THEN conjunct2, THEN conjunct1])
  also have "\<dots> = [\<lparr>name = Some ''A'', rating = Some 5, user_ratings_total = None, types = None, vicinity = None\<rparr>,
        \<lparr>name = Some ''B'', rating = Some 4, user_ratings_total = Some 1, types = None, vicinity = None\<rparr>]"
    by (simp add: get_def)
  finally show ?thesis
    using a b' low high by (intro conjI)
qed

section \<open>Properties of the classifier\<close>

lemmas str_eval = lower_def lower_char_def upper_char_def title_def ascii_uppercase_def
  ascii_lowercase_def get_def strip_def isspace_def

lemma lower_append: "lower (a @ b) = lower a @ lower b"
  by (simp add: lower_def)

lemma sublist_lower_iff:
  "sublist k (lower n) \<longleftrightarrow> (\<exists>pre mid suf. n = pre @ mid @ suf \<and> lower mid = k)"
proof
  assume "sublist k (lower n)"
  then obtain ps ss where "map lower_char n = ps @ k @ ss"
    by (auto simp: sublist_def lower_def)
  then have "\<exists>us vs. n = us @ vs \<and> ps = map lower_char us \<and> k @ ss = map lower_char vs"
    by (simp only: map_eq_append_conv)
  then obtain pre rest where n: "n = pre @ rest" and r: "k @ ss = map lower_char rest"
    by blast
  from r have "\<exists>us vs. rest = us @ vs \<and> k = map lower_char us \<and> ss = map lower_char vs"
    by (simp only: append_eq_map_conv)
  then obtain mid suf where "rest = mid @ suf" and "k = map lower_char mid"
    by blast
  with n have "n = pre @ mid @ suf \<and> lower mid = k"
    by (simp add: lower_def)
  then show "\<exists>pre mid suf. n = pre @ mid @ suf \<and> lower mid = k"
    by blast
next
  assume "\<exists>pre mid suf. n = pre @ mid @ suf \<and> lower mid = k"
  then show "sublist k (lower n)"
    by (auto simp: lower_append)
qed

text \<open>
  Claim C3. A place with a type tag in the deny set is not a restaurant, whatever its other
  tags and its name; otherwise a place with a tag in the allow set is one; otherwise it is
  one exactly when its name has a contiguous part that is, up to the case of its letters,
  one of the ten keywords.
\<close>

theorem is_true_restaurant_spec:
  "is_true_restaurant p =
     (if \<exists>t \<in> set (case types p of None \<Rightarrow> [] | Some ts \<Rightarrow> ts).
           t \<in> {''lodging'', ''hotel'', ''motel'', ''gas_station'',
                 ''grocery_or_supermarket'', ''convenience_store''}
      then False
      else if \<exists>t \<in> set (case types p of None \<Rightarrow> [] | Some ts \<Rightarrow> ts).
                t \<in> {''restaurant'', ''meal_delivery'', ''meal_takeaway''}
      then True
      else (\<exists>k \<in> {''restaurant'', ''grill'', ''kitchen'', ''bistro'', ''cafe'',
                    ''diner'', ''eatery'', ''steakhouse'', ''pizzeria'', ''sushi''}.
              \<exists>pre mid suf. (case name p of None \<Rightarrow> [] | Some n \<Rightarrow> n) = pre @ mid @ suf
                             \<and> lower mid = k))"
proof -
  let ?ts = "case types p of None \<Rightarrow> [] | Some ts \<Rightarrow> ts"
  let ?n = "case name p of None \<Rightarrow> [] | Some n \<Rightarrow> n"
  have deny: "(set ?ts \<inter> EXCLUDE_TYPES \<noteq> {}) = (\<exists>t \<in> set ?ts. t \<in> EXCLUDE_TYPES)"
    by blast
  have allow: "(set ?ts \<inter> RESTAURANT_TYPES \<noteq> {}) = (\<exists>t \<in> set ?ts. t \<in> RESTAURANT_TYPES)"
    by blast
  have kw: "list_ex (\<lambda>keyword. sublist keyword (lower ?n)) restaurant_keywords
            = (\<exists>k \<in> set restaurant_keywords.
                 \<exists>pre mid suf. ?n = pre @ mid @ suf \<and> lower mid = k)"
    by (simp only: list_ex_iff sublist_lower_iff)
  have "is_true_restaurant p =
     (if \<exists>t \<in> set ?ts. t \<in> EXCLUDE_TYPES then False
      else if \<exists>t \<in> set ?ts. t \<in> RESTAURANT_TYPES then True
      else (\<exists>k \<in> set restaurant_keywords.
              \<exists>pre mid suf. ?n = pre @ mid @ suf \<and> lower mid = k))"
    unfolding is_true_restaurant_def Let_def get_def deny allow kw by simp
  then show ?thesis
    by (simp only: EXCLUDE_TYPES_def RESTAURANT_TYPES_def restaurant_keywords_def
          list.set)
qed

text \<open>
  Claim C3 on a place tagged both lodging and restaurant, and on an untagged place whose
  name has the keyword grill in capitals.
\<close>

theorem is_true_restaurant_spec_witness:
  "\<not> is_true_restaurant \<lparr>name = Some ''Harbor Restaurant'', rating = None,
                           user_ratings_total = None,
                           types = Some [''lodging'', ''restaurant''], vicinity = None\<rparr>
   \<and> is_true_restaurant \<lparr>name = Some ''JOES GRILL'', rating = None,
                          user_ratings_total = None, types = Some [''bar''], vicinity = None\<rparr>"
proof -
  have "''JOES GRILL'' = ''JOES '' @ ''GRILL'' @ [] \<and> lower ''GRILL'' = ''grill''"
    by (simp add: str_eval)
  then have "\<exists>pre mid suf. ''JOES GRILL'' = pre @ mid @ suf \<and> lower mid = ''grill''"
    by blast
  then have "\<exists>k \<in> {''restaurant'', ''grill'', ''kitchen'', ''bistro'', ''cafe'',
                    ''diner'', ''eatery'', ''steakhouse'', ''pizzeria'', ''sushi''}.
              \<exists>pre mid suf. ''JOES GRILL'' = pre @ mid @ suf \<and> lower mid = k"
    by blast
  then show ?thesis
    using is_true_restaurant_spec
            [of "\<lparr>name = Some ''Harbor Restaurant'', rating = None, user_ratings_total = None,
                  types = Some [''lodging'', ''restaurant''], vicinity = None\<rparr>"]
          is_true_restaurant_spec
            [of "\<lparr>name = Some ''JOES GRILL'', rating = None, user_ratings_total = None,
                  types = Some [''bar''], vicinity = None\<rparr>"]
    by simp
qed

section \<open>Properties of the geocoder\<close>

lemmas float_eval = float_decimal_def unsigned_decimal_def digit_val_def Let_def upt_rec

lemma sorted_city_names:
  "sort (map fst CITY_COORDINATES) =
     [''atlanta'', ''austin'', ''boston'', ''chicago'', ''dallas'', ''denver'', ''houston'',
      ''las vegas'', ''los angeles'', ''miami'', ''nashville'', ''new orleans'', ''new york'',
      ''philadelphia'', ''phoenix'', ''portland'', ''san diego'', ''san francisco'', ''seattle'',
      ''washington dc'']"
  unfolding CITY_COORDINATES_def by code_simp

lemma map_of_seattle: "map_of CITY_COORDINATES ''seattle'' = Some (47.6062, -122.3321)"
  by (simp add: CITY_COORDINATES_def)

lemma check_range_Inr:
  "check_range a b = Inr loc \<longleftrightarrow>
     (\<exists>lat lng. a = Finite lat \<and> b = Finite lng \<and> -90 \<le> lat \<and> lat \<le> 90
                 \<and> -180 \<le> lng \<and> lng \<le> 180
                 \<and> loc = (lat, lng, [Str ''('', Fixed 4 lat, Str '', '', Fixed 4 lng, Str '')'']))"
  by (cases a; cases b) auto

lemma parse_coords_Inr:
  "parse_coords float coords = Inr loc \<longleftrightarrow>
     (\<exists>p0 p1 lat lng. split CHR '','' coords = [p0, p1]
        \<and> float (strip p0) = Some (Finite lat) \<and> float (strip p1) = Some (Finite lng)
        \<and> -90 \<le> lat \<and> lat \<le> 90 \<and> -180 \<le> lng \<and> lng \<le> 180
        \<and> loc = (lat, lng, [Str ''('', Fixed 4 lat, Str '', '', Fixed 4 lng, Str '')'']))"
  unfolding parse_coords_def
  by (auto simp: check_range_Inr split: list.splits option.splits)

text \<open>
  Claim C8. Given a non-empty coordinate string, the geocoder returns a location exactly
  when the string splits at its commas into two fields that both read as finite numbers, the
  first in [-90, 90] and the second in [-180, 180]; in every other case it prints an error
  and exits with status 1. It rejects \<^verbatim>\<open>47.6,-122.3,extra\<close> for its three fields and
  \<^verbatim>\<open>200,50\<close> for its latitude.
\<close>

theorem coordinate_parsing:
  assumes "coords \<noteq> []"
  shows "(get_location float city (Some coords) = ([], Inr (lat, lng, label))
            \<longleftrightarrow> (\<exists>p0 p1. split CHR '','' coords = [p0, p1]
                   \<and> float (strip p0) = Some (Finite lat) \<and> float (strip p1) = Some (Finite lng)
                   \<and> -90 \<le> lat \<and> lat \<le> 90 \<and> -180 \<le> lng \<and> lng \<le> 180
                   \<and> label = [Str ''('', Fixed 4 lat, Str '', '', Fixed 4 lng, Str '')'']))
         \<and> ((\<exists>loc. get_location float city (Some coords) = ([], Inr loc))
              \<or> (\<exists>msg. get_location float city (Some coords)
                         = ([Print ([Str ''Error parsing coordinates: ''] @ msg)], Inl (SysExit 1))))
         \<and> get_location float city (Some ''47.6,-122.3,extra'')
             = ([Print [Str ''Error parsing coordinates: '',
                        Str ''Coordinates must be in format: lat,lng'']], Inl (SysExit 1))
         \<and> (float ''200'' = Some (Finite 200) \<and> float ''50'' = Some (Finite 50)
              \<longrightarrow> get_location float city (Some ''200,50'')
                   = ([Print [Str ''Error parsing coordinates: '', Str ''Invalid coordinate range'']],
                      Inl (SysExit 1)))"
proof (intro conjI impI)
  have gl: "get_location float city (Some coords) =
        (case parse_coords float coords of
           Inl e \<Rightarrow> ([Print ([Str ''Error parsing coordinates: ''] @ e)], Inl (SysExit 1))
         | Inr loc \<Rightarrow> ([], Inr loc))"
    using assms by (simp add: get_location_def truthy_def get_def)
  show "get_location float city (Some coords) = ([], Inr (lat, lng, label))
            \<longleftrightarrow> (\<exists>p0 p1. split CHR '','' coords = [p0, p1]
                   \<and> float (strip p0) = Some (Finite lat) \<and> float (strip p1) = Some (Finite lng)
                   \<and> -90 \<le> lat \<and> lat \<le> 90 \<and> -180 \<le> lng \<and> lng \<le> 180
                   \<and> label = [Str ''('', Fixed 4 lat, Str '', '', Fixed 4 lng, Str '')''])"
  proof -
    have "get_location float city (Some coords) = ([], Inr (lat, lng, label))
          \<longleftrightarrow> parse_coords float coords = Inr (lat, lng, label)"
      unfolding gl by (cases "parse_coords float coords") auto
    then show ?thesis
      by (auto simp: parse_coords_Inr)
  qed
  show "(\<exists>loc. get_location float city (Some coords) = ([], Inr loc))
              \<or> (\<exists>msg. get_location float city (Some coords)
                         = ([Print ([Str ''Error parsing coordinates: ''] @ msg)], Inl (SysExit 1)))"
    unfolding gl by (cases "parse_coords float coords") auto
  show "get_location float city (Some ''47.6,-122.3,extra'')
             = ([Print [Str ''Error parsing coordinates: '',
                        Str ''Coordinates must be in format: lat,lng'']], Inl (SysExit 1))"
    by (simp add: get_location_def truthy_def get_def parse_coords_def)
  show "get_location float city (Some ''200,50'')
                   = ([Print [Str ''Error parsing coordinates: '', Str ''Invalid coordinate range'']],
                      Inl (SysExit 1))"
    if "float ''200'' = Some (Finite 200) \<and> float ''50'' = Some (Finite 50)"
    using that
    by (simp add: get_location_def truthy_def get_def parse_coords_def strip_def isspace_def)
qed

text \<open>Claim C8 on the coordinates of Seattle and on a latitude of 200.\<close>

theorem coordinate_parsing_witness:
  "get_location float_decimal None (Some ''47.6062, -122.3321'')
     = ([], Inr (47.6062, -122.3321,
                 [Str ''('', Fixed 4 47.6062, Str '', '', Fixed 4 (-122.3321), Str '')'']))
   \<and> get_location float_decimal None (Some ''200,50'')
     = ([Print [Str ''Error parsing coordinates: '', Str ''Invalid coordinate range'']],
        Inl (SysExit 1))"
proof -
  have ne: "''47.6062, -122.3321'' \<noteq> []" by simp
  have s: "split CHR '','' ''47.6062, -122.3321'' = [''47.6062'', '' -122.3321'']"
    by simp
  have f0: "float_decimal (strip ''47.6062'') = Some (Finite 47.6062)"
    by (simp add: float_eval strip_def isspace_def)
  have f1: "float_decimal (strip '' -122.3321'') = Some (Finite (-122.3321))"
    by (simp add: float_eval strip_def isspace_def)
  have f2: "float_decimal ''200'' = Some (Finite 200) \<and> float_decimal ''50'' = Some (Finite 50)"
    by (simp add: float_eval)
  have ne2: "''200,50'' \<noteq> []" by simp
  show ?thesis
    using coordinate_parsing [OF ne, of float_decimal None "47.6062" "-122.3321"
            "[Str ''('', Fixed 4 47.6062, Str '', '', Fixed 4 (-122.3321), Str '')'']"]
          coordinate_parsing [OF ne2, of float_decimal None] s f0 f1 f2
    by simp
qed

text \<open>
  Claim C9. Given a city name and no coordinates, when the lower-cased name is not a key of
  the table the geocoder prints the error, the twenty known names in sorted order, and
  exits with status 1. Given neither a city nor coordinates it returns Seattle.
\<close>

theorem unknown_city_and_default:
  "(c \<noteq> [] \<and> \<not> truthy coords \<and> lower c \<notin> set (map fst CITY_COORDINATES)
      \<longrightarrow> get_location float (Some c) coords
          = ([Print [Str ''Error: City '', Str quote, Str c, Str quote,
                     Str '' not found in database.''],
              Print [Str ''Available cities: '',
                     Str (join '', ''
                       [''atlanta'', ''austin'', ''boston'', ''chicago'', ''dallas'', ''denver'',
                        ''houston'', ''las vegas'', ''los angeles'', ''miami'', ''nashville'',
                        ''new orleans'', ''new york'', ''philadelphia'', ''phoenix'', ''portland'',
                        ''san diego'', ''san francisco'', ''seattle'', ''washington dc''])],
              Print [Str newline,
                     Str ''Or use --coords with latitude,longitude (e.g., --coords 47.6062,-122.3321)'']],
             Inl (SysExit 1)))
   \<and> (\<not> truthy city \<and> \<not> truthy coords
      \<longrightarrow> get_location float city coords = ([], Inr (47.6062, -122.3321, [Str ''Seattle''])))"
proof (intro conjI impI)
  assume h: "c \<noteq> [] \<and> \<not> truthy coords \<and> lower c \<notin> set (map fst CITY_COORDINATES)"
  then have "map_of CITY_COORDINATES (lower c) = None"
    by (simp add: map_of_eq_None_iff)
  with h show "get_location float (Some c) coords
          = ([Print [Str ''Error: City '', Str quote, Str c, Str quote,
                     Str '' not found in database.''],
              Print [Str ''Available cities: '',
                     Str (join '', ''
                       [''atlanta'', ''austin'', ''boston'', ''chicago'', ''dallas'', ''denver'',
                        ''houston'', ''las vegas'', ''los angeles'', ''miami'', ''nashville'',
                        ''new orleans'', ''new york'', ''philadelphia'', ''phoenix'', ''portland'',
                        ''san diego'', ''san francisco'', ''seattle'', ''washington dc''])],
              Print [Str newline,
                     Str ''Or use --coords with latitude,longitude (e.g., --coords 47.6062,-122.3321)'']],
             Inl (SysExit 1))"
    unfolding get_location_def sorted_city_names
    by (simp add: truthy_def get_def)
next
  assume "\<not> truthy city \<and> \<not> truthy coords"
  then show "get_location float city coords = ([], Inr (47.6062, -122.3321, [Str ''Seattle'']))"
    by (simp add: get_location_def map_of_seattle)
qed

text \<open>Claim C9 on the city Atlantis, and on no input at all.\<close>

theorem unknown_city_and_default_witness:
  "fst (get_location float_decimal (Some ''Atlantis'') None) ! 1
     = Print [Str ''Available cities: '',
              Str ''atlanta, austin, boston, chicago, dallas, denver, houston, las vegas, los angeles, miami, nashville, new orleans, new york, philadelphia, phoenix, portland, san diego, san francisco, seattle, washington dc'']
   \<and> snd (get_location float_decimal (Some ''Atlantis'') None) = Inl (SysExit 1)
   \<and> get_location float_decimal None None = ([], Inr (47.6062, -122.3321, [Str ''Seattle'']))"
proof -
  have l: "lower ''Atlantis'' = ''atlantis''"
    by (simp add: str_eval)
  have "''atlantis'' \<notin> set (map fst CITY_COORDINATES)"
    by (simp add: CITY_COORDINATES_def)
  with l have a: "''Atlantis'' \<noteq> [] \<and> \<not> truthy None
                  \<and> lower ''Atlantis'' \<notin> set (map fst CITY_COORDINATES)"
    by (simp add: truthy_def)
  have b: "\<not> truthy None \<and> \<not> truthy None"
    by (simp add: truthy_def)
  show ?thesis
    using unknown_city_and_default [of "''Atlantis''" None float_decimal None] a b
    by simp
qed

section \<open>Properties of the fetcher\<close>

lemma requests_append: "requests (xs @ ys) = requests xs @ requests ys"
  by (induction xs rule: requests.induct) auto

lemma actions_append: "actions (xs @ ys) = actions xs @ actions ys"
  by (induction xs rule: actions.induct) auto

lemma requests_page_prefix: "requests (page_prefix pc) = []"
  by (simp add: page_prefix_def)

lemma actions_page_prefix: "actions (page_prefix pc) = (if pc = 0 then [] else [Sleep 2])"
  by (simp add: page_prefix_def)

lemma requests_status_warning: "requests (status_warning d) = []"
  by (simp add: status_warning_def)

lemma actions_status_warning: "actions (status_warning d) = []"
  by (simp add: status_warning_def)

lemma requests_filtered_note: "requests (filtered_note d) = []"
  by (simp add: filtered_note_def)

lemma actions_filtered_note: "actions (filtered_note d) = []"
  by (simp add: filtered_note_def)

lemma loop_body_exception:
  assumes "api pc (build_params lat lng rm k pc tok) = RequestException e"
  shows "loop_body api lat lng rm k pc (a, tok, out)
         = Break (a, tok, out @ page_prefix pc @ [HttpGet (build_params lat lng rm k pc tok),
                    Print [Str ''Error: API request failed: '', Str e]])"
  using assms by (simp add: loop_body_def Let_def page_prefix_def)

lemma loop_body_refused:
  assumes "api pc (build_params lat lng rm k pc tok) = Json d" and "\<not> status_ok d"
  shows "loop_body api lat lng rm k pc (a, tok, out)
         = Break (a, tok, out @ page_prefix pc @ [HttpGet (build_params lat lng rm k pc tok)]
                    @ status_warning d)"
  using assms by (simp add: loop_body_def Let_def page_prefix_def status_ok_def status_warning_def)

lemma loop_body_last:
  assumes "api pc (build_params lat lng rm k pc tok) = Json d" and "status_ok d"
      and "\<not> truthy (next_page_token d)"
  shows "loop_body api lat lng rm k pc (a, tok, out)
         = Break (a @ true_restaurants d, next_page_token d,
                  out @ page_prefix pc @ [HttpGet (build_params lat lng rm k pc tok)]
                    @ filtered_note d)"
  using assms
  by (auto simp: loop_body_def Let_def page_prefix_def status_ok_def filtered_note_def
        true_restaurants_def)

lemma loop_body_more:
  assumes "api pc (build_params lat lng rm k pc tok) = Json d" and "status_ok d"
      and "truthy (next_page_token d)"
  shows "loop_body api lat lng rm k pc (a, tok, out)
         = Continue (a @ true_restaurants d, next_page_token d,
                  out @ page_prefix pc @ [HttpGet (build_params lat lng rm k pc tok)]
                    @ filtered_note d)"
  using assms
  by (auto simp: loop_body_def Let_def page_prefix_def status_ok_def filtered_note_def
        true_restaurants_def)

lemma loop_body_cases:
  obtains
    (exception) e where "api pc (build_params lat lng rm k pc tok) = RequestException e"
  | (refused) d where "api pc (build_params lat lng rm k pc tok) = Json d" "\<not> status_ok d"
  | (last) d where "api pc (build_params lat lng rm k pc tok) = Json d" "status_ok d"
      "\<not> truthy (next_page_token d)"
  | (more) d where "api pc (build_params lat lng rm k pc tok) = Json d" "status_ok d"
      "truthy (next_page_token d)"
  by (cases "api pc (build_params lat lng rm k pc tok)") auto

lemma fetch_loop_done: "\<not> pc < 3 \<Longrightarrow> fetch_loop api lat lng rm k pc s = s"
  by (simp add: fetch_loop.simps)

lemma fetch_loop_step:
  "pc < 3 \<Longrightarrow> fetch_loop api lat lng rm k pc s =
     (case loop_body api lat lng rm k pc s of
        Break s' \<Rightarrow> s'
      | Continue s' \<Rightarrow> fetch_loop api lat lng rm k (pc + 1) s')"
  by (subst fetch_loop.simps) simp


lemma fetch_loop_shape:
  "\<exists>ps. requests (snd (snd (fetch_loop api lat lng rm k pc s))) = requests (snd (snd s)) @ ps
        \<and> length ps \<le> 3 - pc \<and> (pc < 3 \<longrightarrow> ps \<noteq> [])
        \<and> actions (snd (snd (fetch_loop api lat lng rm k pc s)))
            = actions (snd (snd s)) @ steps pc ps"
proof (induction api lat lng rm k pc s rule: fetch_loop.induct)
  case (1 api lat lng rm k pc s)
  obtain a tok out where s: "s = (a, tok, out)"
    by (cases s) auto
  let ?p = "build_params lat lng rm k pc tok"
  show ?case
  proof (cases "pc < 3")
    case False
    then show ?thesis
      by (simp add: fetch_loop_done)
  next
    case True
    have one: "\<exists>ps. requests (out @ page_prefix pc @ [HttpGet ?p] @ es) = requests out @ ps
               \<and> length ps \<le> 3 - pc \<and> (pc < 3 \<longrightarrow> ps \<noteq> [])
               \<and> actions (out @ page_prefix pc @ [HttpGet ?p] @ es) = actions out @ steps pc ps"
      if "requests es = []" and "actions es = []" for es
      using that True
      by (intro exI [of _ "[?p]"])
         (simp add: requests_append actions_append requests_page_prefix actions_page_prefix)
    show ?thesis
    proof (cases rule: loop_body_cases [of api pc lat lng rm k tok])
      case (exception e)
      show ?thesis
        using one [of "[Print [Str ''Error: API request failed: '', Str e]]"] True exception
        by (simp add: s fetch_loop_step loop_body_exception)
    next
      case (refused d)
      show ?thesis
        using one [of "status_warning d"] True refused
        by (simp add: s fetch_loop_step loop_body_refused
              requests_status_warning actions_status_warning)
    next
      case (last d)
      show ?thesis
        using one [of "filtered_note d"] True last
        by (simp add: s fetch_loop_step loop_body_last
              requests_filtered_note actions_filtered_note)
    next
      case (more d)
      let ?s1 = "(a @ true_restaurants d, next_page_token d,
                  out @ page_prefix pc @ [HttpGet ?p] @ filtered_note d)"
      have lb: "loop_body api lat lng rm k pc s = Continue ?s1"
        using more by (simp add: s loop_body_more)
      from "1.IH" [OF True lb]
      obtain ps where ps:
        "requests (snd (snd (fetch_loop api lat lng rm k (pc + 1) ?s1)))
           = requests (snd (snd ?s1)) @ ps"
        "length ps \<le> 3 - (pc + 1)"
        "actions (snd (snd (fetch_loop api lat lng rm k (pc + 1) ?s1)))
           = actions (snd (snd ?s1)) @ steps (pc + 1) ps"
        by blast
      have fl: "fetch_loop api lat lng rm k pc s = fetch_loop api lat lng rm k (pc + 1) ?s1"
        using True lb by (simp add: fetch_loop_step)
      show ?thesis
        unfolding fl
        using ps True
        by (intro exI [of _ "?p # ps"])
           (simp add: s requests_append actions_append requests_page_prefix actions_page_prefix
              requests_filtered_note actions_filtered_note)
    qed
  qed
qed


lemma pagetoken_build_params:
  "0 < pc \<Longrightarrow> pagetoken (build_params lat lng rm k pc tok) = tok"
  by (simp add: build_params_def)

lemma chain_extend:
  assumes "ready api pc tok rs"
  shows "chain api (rs @ [build_params lat lng rm k pc tok])"
  unfolding chain_def
proof (intro allI impI)
  fix j
  assume j: "Suc j < length (rs @ [build_params lat lng rm k pc tok])"
  have len: "length rs = pc" and ch: "chain api rs"
    using assms by (simp_all add: ready_def)
  show "continued api j ((rs @ [build_params lat lng rm k pc tok]) ! j)
          ((rs @ [build_params lat lng rm k pc tok]) ! Suc j)"
  proof (cases "Suc j < pc")
    case True
    then show ?thesis
      using ch len by (simp add: chain_def nth_append)
  next
    case False
    with j len have pc: "pc = Suc j" by simp
    then obtain d where "api j (rs ! j) = Json d" "status_ok d" "truthy (next_page_token d)"
        "tok = next_page_token d"
      using assms by (auto simp: ready_def)
    then show ?thesis
      using pc len by (simp add: continued_def nth_append pagetoken_build_params)
  qed
qed

lemma ready_extend:
  assumes "ready api pc tok rs"
      and "api pc (build_params lat lng rm k pc tok) = Json d" and "status_ok d"
      and "truthy (next_page_token d)"
  shows "ready api (pc + 1) (next_page_token d) (rs @ [build_params lat lng rm k pc tok])"
proof -
  have "length rs = pc" using assms(1) by (simp add: ready_def)
  then show ?thesis
    using chain_extend [OF assms(1), of lat lng rm k] assms(2-4)
    by (simp add: ready_def nth_append)
qed

lemma fetch_loop_chain:
  "ready api pc (fst (snd s)) (requests (snd (snd s)))
   \<Longrightarrow> chain api (requests (snd (snd (fetch_loop api lat lng rm k pc s))))"
proof (induction api lat lng rm k pc s rule: fetch_loop.induct)
  case (1 api lat lng rm k pc s)
  obtain a tok out where s: "s = (a, tok, out)"
    by (cases s) auto
  let ?p = "build_params lat lng rm k pc tok"
  have rdy: "ready api pc tok (requests out)"
    using "1.prems" by (simp add: s)
  show ?case
  proof (cases "pc < 3")
    case False
    then show ?thesis
      using rdy by (simp add: fetch_loop_done s ready_def)
  next
    case True
    have one: "chain api (requests (out @ page_prefix pc @ [HttpGet ?p] @ es))"
      if "requests es = []" for es
      using that chain_extend [OF rdy, of lat lng rm k]
      by (simp add: requests_append requests_page_prefix)
    show ?thesis
    proof (cases rule: loop_body_cases [of api pc lat lng rm k tok])
      case (exception e)
      show ?thesis
        using one [of "[Print [Str ''Error: API request failed: '', Str e]]"] True exception
        by (simp add: s fetch_loop_step loop_body_exception)
    next
      case (refused d)
      show ?thesis
        using one [of "status_warning d"] True refused
        by (simp add: s fetch_loop_step loop_body_refused requests_status_warning)
    next
      case (last d)
      show ?thesis
        using one [of "filtered_note d"] True last
        by (simp add: s fetch_loop_step loop_body_last requests_filtered_note)
    next
      case (more d)
      let ?s1 = "(a @ true_restaurants d, next_page_token d,
                  out @ page_prefix pc @ [HttpGet ?p] @ filtered_note d)"
      have lb: "loop_body api lat lng rm k pc s = Continue ?s1"
        using more by (simp add: s loop_body_more)
      have "ready api (pc + 1) (fst (snd ?s1)) (requests (snd (snd ?s1)))"
        using ready_extend [OF rdy more]
        by (simp add: requests_append requests_page_prefix requests_filtered_note)
      from "1.IH" [OF True lb this]
      show ?thesis
        using True lb by (simp add: fetch_loop_step)
    qed
  qed
qed

lemma steps_Suc: "steps (Suc n) ps = concat (map (\<lambda>q. [Sleep 2, HttpGet q]) ps)"
  by (induction ps arbitrary: n) auto

lemma fetch_all_unfold:
  "fetch_all_restaurants api lat lng miles k
   = (case fetch_loop api lat lng (min (miles_to_meters miles) 50000) k 0
                ([], None, if miles_to_meters miles > 50000 then [clamp_notice] else []) of
        (all_restaurants, page_token, out) \<Rightarrow> (all_restaurants, out))"
  by (simp add: fetch_all_restaurants_def Let_def min_def)

lemma fetch_all_trace:
  "snd (fetch_all_restaurants api lat lng miles k)
   = snd (snd (fetch_loop api lat lng (if miles_to_meters miles > 50000 then 50000 else miles_to_meters miles) k 0
                ([], None, if miles_to_meters miles > 50000 then [clamp_notice] else [])))"
  by (simp add: fetch_all_restaurants_def Let_def split: prod.splits)

text \<open>
  Claim C4. A run of the fetcher issues at least one and at most three requests. Its waits
  and requests are the first request followed, for each further request, by a wait of 2 and
  that request. Every request that is followed by another was answered with a good status
  and a continuation token, which the next request carries; so a response without a
  continuation token is the last of the run.
\<close>

theorem fetch_at_most_three_pages:
  "\<exists>p ps. requests (snd (fetch_all_restaurants api lat lng radius_miles api_key)) = p # ps
          \<and> length ps \<le> 2
          \<and> actions (snd (fetch_all_restaurants api lat lng radius_miles api_key))
              = HttpGet p # concat (map (\<lambda>q. [Sleep 2, HttpGet q]) ps)
          \<and> (\<forall>j. Suc j < length (p # ps) \<longrightarrow>
                (\<exists>d. api j ((p # ps) ! j) = Json d
                     \<and> (status d = Some ''OK'' \<or> status d = Some ''ZERO_RESULTS'')
                     \<and> truthy (next_page_token d)
                     \<and> pagetoken ((p # ps) ! Suc j) = next_page_token d))
          \<and> (\<forall>j d. j < length (p # ps) \<and> api j ((p # ps) ! j) = Json d
                     \<and> \<not> truthy (next_page_token d)
                  \<longrightarrow> length (p # ps) = Suc j)"
proof -
  let ?rm = "if miles_to_meters radius_miles > 50000 then 50000 else miles_to_meters radius_miles"
  let ?out0 = "if miles_to_meters radius_miles > 50000 then [clamp_notice] else []"
  let ?s0 = "([], None, ?out0) :: place list \<times> string option \<times> event list"
  let ?tr = "snd (fetch_all_restaurants api lat lng radius_miles api_key)"
  have tr: "?tr = snd (snd (fetch_loop api lat lng ?rm api_key 0 ?s0))"
    by (rule fetch_all_trace)
  have r0: "requests ?out0 = []" and a0: "actions ?out0 = []"
    by (simp_all add: clamp_notice_def)
  obtain qs where qs: "requests ?tr = qs" "length qs \<le> 3" "qs \<noteq> []"
      "actions ?tr = steps 0 qs"
    using fetch_loop_shape [of api lat lng ?rm api_key 0 ?s0] r0 a0
    unfolding tr by auto
  then obtain p ps where pps: "qs = p # ps"
    by (cases qs) auto
  have "ready api 0 (fst (snd ?s0)) (requests (snd (snd ?s0)))"
    using r0 by (simp add: ready_def chain_def)
  then have ch: "chain api (p # ps)"
    using fetch_loop_chain [of api 0 ?s0 lat lng ?rm api_key] qs(1) pps
    unfolding tr by simp
  have c1: "\<forall>j. Suc j < length (p # ps) \<longrightarrow>
                (\<exists>d. api j ((p # ps) ! j) = Json d
                     \<and> (status d = Some ''OK'' \<or> status d = Some ''ZERO_RESULTS'')
                     \<and> truthy (next_page_token d)
                     \<and> pagetoken ((p # ps) ! Suc j) = next_page_token d)"
    using ch unfolding chain_def continued_def status_ok_def by blast
  have c2: "\<forall>j d. j < length (p # ps) \<and> api j ((p # ps) ! j) = Json d
                     \<and> \<not> truthy (next_page_token d)
                  \<longrightarrow> length (p # ps) = Suc j"
  proof (intro allI impI)
    fix j d
    assume h: "j < length (p # ps) \<and> api j ((p # ps) ! j) = Json d
               \<and> \<not> truthy (next_page_token d)"
    have "\<not> Suc j < length (p # ps)"
    proof
      assume "Suc j < length (p # ps)"
      with c1 obtain d' where "api j ((p # ps) ! j) = Json d'" "truthy (next_page_token d')"
        by blast
      with h show False by simp
    qed
    with h show "length (p # ps) = Suc j" by simp
  qed
  have "requests ?tr = p # ps \<and> length ps \<le> 2
        \<and> actions ?tr = HttpGet p # concat (map (\<lambda>q. [Sleep 2, HttpGet q]) ps)"
    using qs pps by (simp add: steps_Suc)
  with c1 c2 show ?thesis
    by blast
qed

text \<open>
  Claim C4 against a service that returns a continuation token with every page: three
  requests, with a wait before the second and the third.
\<close>

theorem fetch_at_most_three_pages_witness:
  "length (requests (snd (fetch_all_restaurants api_endless 47.6062 (-122.3321) 20 ''KEY''))) \<le> 3
   \<and> (\<exists>p0 p1 p2. actions (snd (fetch_all_restaurants api_endless 47.6062 (-122.3321) 20 ''KEY''))
                    = [HttpGet p0, Sleep 2, HttpGet p1, Sleep 2, HttpGet p2])"
proof -
  let ?tr = "snd (fetch_all_restaurants api_endless 47.6062 (-122.3321) 20 ''KEY'')"
  obtain p ps where run: "requests ?tr = p # ps" "length ps \<le> 2"
      "actions ?tr = HttpGet p # concat (map (\<lambda>q. [Sleep 2, HttpGet q]) ps)"
      "\<forall>j d. j < length (p # ps) \<and> api_endless j ((p # ps) ! j) = Json d
                     \<and> \<not> truthy (next_page_token d)
                  \<longrightarrow> length (p # ps) = Suc j"
      "\<forall>j. Suc j < length (p # ps) \<longrightarrow>
                (\<exists>d. api_endless j ((p # ps) ! j) = Json d
                     \<and> (status d = Some ''OK'' \<or> status d = Some ''ZERO_RESULTS'')
                     \<and> truthy (next_page_token d)
                     \<and> pagetoken ((p # ps) ! Suc j) = next_page_token d)"
    using fetch_at_most_three_pages [of api_endless "47.6062" "-122.3321" 20 "''KEY''"]
    by blast
  have e: "fetch_all_restaurants api_endless lat lng miles k
           = ([], (if miles_to_meters miles > 50000 then [clamp_notice] else [])
                  @ [HttpGet (build_params lat lng (min (miles_to_meters miles) 50000) k 0 None),
                     Print [Str ''  Fetching page '', Dec 2, Str ''/3...''], Sleep 2,
                     HttpGet (build_params lat lng (min (miles_to_meters miles) 50000) k 1 (Some ''next'')),
                     Print [Str ''  Fetching page '', Dec 3, Str ''/3...''], Sleep 2,
                     HttpGet (build_params lat lng (min (miles_to_meters miles) 50000) k 2 (Some ''next''))])"
    for lat lng miles k
    by (simp add: fetch_all_unfold fetch_loop_step fetch_loop_done loop_body_more api_endless_def
          status_ok_def truthy_def page_prefix_def filtered_note_def true_restaurants_def get_def
          numeral_2_eq_2)
  have "\<exists>p0 p1 p2. actions ?tr = [HttpGet p0, Sleep 2, HttpGet p1, Sleep 2, HttpGet p2]"
    unfolding e by (simp add: clamp_notice_def)
  with run(1,2) show ?thesis
    by simp
qed

lemma fetch_loop_pages:
  assumes "\<forall>i<length ds.
             api (pc + i) (build_params lat lng rm k (pc + i)
                             (if i = 0 then tok else next_page_token (ds ! (i - 1))))
               = Json (ds ! i)
             \<and> status_ok (ds ! i) \<and> truthy (next_page_token (ds ! i))"
      and "pc + length ds \<le> 3"
  shows "\<exists>out'. fetch_loop api lat lng rm k pc (a, tok, out)
           = fetch_loop api lat lng rm k (pc + length ds)
               (a @ concat (map true_restaurants ds),
                (if ds = [] then tok else next_page_token (last ds)), out')"
  using assms
proof (induction ds arbitrary: pc a tok out)
  case Nil
  show ?case by (intro exI [of _ out]) simp
next
  case (Cons d ds)
  have pc: "pc < 3" using Cons.prems(2) by simp
  have d: "api pc (build_params lat lng rm k pc tok) = Json d" "status_ok d"
      "truthy (next_page_token d)"
    using Cons.prems(1) [rule_format, of 0] by simp_all
  let ?out1 = "out @ page_prefix pc @ [HttpGet (build_params lat lng rm k pc tok)] @ filtered_note d"
  have step: "fetch_loop api lat lng rm k pc (a, tok, out)
              = fetch_loop api lat lng rm k (pc + 1) (a @ true_restaurants d, next_page_token d, ?out1)"
    using pc d by (simp add: fetch_loop_step loop_body_more)
  have rest: "\<forall>i<length ds.
             api (pc + 1 + i) (build_params lat lng rm k (pc + 1 + i)
                             (if i = 0 then next_page_token d else next_page_token (ds ! (i - 1))))
               = Json (ds ! i)
             \<and> status_ok (ds ! i) \<and> truthy (next_page_token (ds ! i))"
  proof (intro allI impI)
    fix i assume i: "i < length ds"
    show "api (pc + 1 + i) (build_params lat lng rm k (pc + 1 + i)
                             (if i = 0 then next_page_token d else next_page_token (ds ! (i - 1))))
               = Json (ds ! i)
             \<and> status_ok (ds ! i) \<and> truthy (next_page_token (ds ! i))"
      using Cons.prems(1) [rule_format, of "Suc i"] i
      by (cases i) simp_all
  qed
  have "pc + 1 + length ds \<le> 3" using Cons.prems(2) by simp
  from Cons.IH [OF rest this, of "a @ true_restaurants d" ?out1]
  obtain out' where
    "fetch_loop api lat lng rm k (pc + 1) (a @ true_restaurants d, next_page_token d, ?out1)
       = fetch_loop api lat lng rm k (pc + 1 + length ds)
           ((a @ true_restaurants d) @ concat (map true_restaurants ds),
            (if ds = [] then next_page_token d else next_page_token (last ds)), out')"
    by blast
  then show ?case
    unfolding step by (intro exI [of _ out']) simp
qed

text \<open>
  Claim C5. Let the first \<open>length ds\<close> requests (at most two) be answered by the pages
  \<open>ds\<close>, each with a good status and a continuation token, and let \<open>p\<close> be the next
  request. If \<open>p\<close> fails with a request exception, or is answered with a status other than
  \<^verbatim>\<open>OK\<close> and \<^verbatim>\<open>ZERO_RESULTS\<close>, the fetcher returns exactly the places of
  \<open>ds\<close> that pass the classifier, and the last lines it prints are the failure (the text of
  the exception, or the status and the detail message when one is given).
\<close>

theorem fetch_failure_returns_partial:
  assumes "length ds \<le> 2"
      and "p = build_params lat lng (min (miles_to_meters radius_miles) 50000) api_key (length ds)
                 (if ds = [] then None else next_page_token (last ds))"
      and "\<forall>i<length ds.
             api i (build_params lat lng (min (miles_to_meters radius_miles) 50000) api_key i
                      (if i = 0 then None else next_page_token (ds ! (i - 1))))
               = Json (ds ! i)
             \<and> (status (ds ! i) = Some ''OK'' \<or> status (ds ! i) = Some ''ZERO_RESULTS'')
             \<and> truthy (next_page_token (ds ! i))"
  shows "(api (length ds) p = RequestException e \<longrightarrow>
            (\<exists>before. fetch_all_restaurants api lat lng radius_miles api_key
               = (concat (map (\<lambda>d. filter is_true_restaurant (get (results d) [])) ds),
                  before @ [HttpGet p, Print [Str ''Error: API request failed: '', Str e]])))
         \<and> (api (length ds) p = Json bad
              \<and> status bad \<noteq> Some ''OK'' \<and> status bad \<noteq> Some ''ZERO_RESULTS'' \<longrightarrow>
            (\<exists>before. fetch_all_restaurants api lat lng radius_miles api_key
               = (concat (map (\<lambda>d. filter is_true_restaurant (get (results d) [])) ds),
                  before @ [HttpGet p,
                            Print [Str ''Warning: API returned status '', Str quote,
                                   Str (format_opt (status bad)), Str quote]]
                         @ (if truthy (error_message bad)
                            then [Print [Str ''Details: '', Str (get (error_message bad) [])]]
                            else []))))"
proof -
  let ?rm = "min (miles_to_meters radius_miles) 50000"
  let ?out0 = "if miles_to_meters radius_miles > 50000 then [clamp_notice] else []"
  let ?all = "concat (map true_restaurants ds)"
  let ?tok = "if ds = [] then None else next_page_token (last ds)"
  have pages: "\<forall>i<length ds.
             api (0 + i) (build_params lat lng ?rm api_key (0 + i)
                      (if i = 0 then None else next_page_token (ds ! (i - 1))))
               = Json (ds ! i)
             \<and> status_ok (ds ! i) \<and> truthy (next_page_token (ds ! i))"
    using assms(3) by (simp add: status_ok_def)
  have "0 + length ds \<le> 3" using assms(1) by simp
  from fetch_loop_pages [OF pages this, of "[]" ?out0]
  obtain out' where run:
    "fetch_loop api lat lng ?rm api_key 0 ([], None, ?out0)
       = fetch_loop api lat lng ?rm api_key (length ds) (?all, ?tok, out')"
    by auto
  have lt: "length ds < 3" using assms(1) by simp
  have all: "?all = concat (map (\<lambda>d. filter is_true_restaurant (get (results d) [])) ds)"
    by (induction ds) (simp_all add: true_restaurants_def)
  show ?thesis
  proof (intro conjI impI)
    assume "api (length ds) p = RequestException e"
    then have "fetch_loop api lat lng ?rm api_key (length ds) (?all, ?tok, out')
          = (?all, ?tok, out' @ page_prefix (length ds)
                           @ [HttpGet p, Print [Str ''Error: API request failed: '', Str e]])"
      using lt unfolding assms(2) by (simp add: fetch_loop_step loop_body_exception)
    then have "fetch_all_restaurants api lat lng radius_miles api_key
          = (concat (map (\<lambda>d. filter is_true_restaurant (get (results d) [])) ds),
             (out' @ page_prefix (length ds))
               @ [HttpGet p, Print [Str ''Error: API request failed: '', Str e]])"
      unfolding fetch_all_unfold run all by simp
    then show "\<exists>before. fetch_all_restaurants api lat lng radius_miles api_key
               = (concat (map (\<lambda>d. filter is_true_restaurant (get (results d) [])) ds),
                  before @ [HttpGet p, Print [Str ''Error: API request failed: '', Str e]])"
      by blast
  next
    assume h: "api (length ds) p = Json bad
               \<and> status bad \<noteq> Some ''OK'' \<and> status bad \<noteq> Some ''ZERO_RESULTS''"
    then have "\<not> status_ok bad" by (simp add: status_ok_def)
    with h have "fetch_loop api lat lng ?rm api_key (length ds) (?all, ?tok, out')
          = (?all, ?tok, out' @ page_prefix (length ds) @ [HttpGet p] @ status_warning bad)"
      using lt unfolding assms(2) by (simp add: fetch_loop_step loop_body_refused)
    then have "fetch_all_restaurants api lat lng radius_miles api_key
          = (concat (map (\<lambda>d. filter is_true_restaurant (get (results d) [])) ds),
             (out' @ page_prefix (length ds)) @ [HttpGet p,
                            Print [Str ''Warning: API returned status '', Str quote,
                                   Str (format_opt (status bad)), Str quote]]
                         @ (if truthy (error_message bad)
                            then [Print [Str ''Details: '', Str (get (error_message bad) [])]]
                            else []))"
      unfolding fetch_all_unfold run all by (simp add: status_warning_def)
    then show "\<exists>before. fetch_all_restaurants api lat lng radius_miles api_key
               = (concat (map (\<lambda>d. filter is_true_restaurant (get (results d) [])) ds),
                  before @ [HttpGet p,
                            Print [Str ''Warning: API returned status '', Str quote,
                                   Str (format_opt (status bad)), Str quote]]
                         @ (if truthy (error_message bad)
                            then [Print [Str ''Details: '', Str (get (error_message bad) [])]]
                            else []))"
      by blast
  qed
qed

lemma page_one_restaurants:
  "filter is_true_restaurant (get (results page_one) [])
   = [\<lparr>name = Some ''Canlis'', rating = Some 4.8, user_ratings_total = Some 1000,
       types = Some [''restaurant'', ''food''], vicinity = Some ''2576 Aurora Ave N''\<rparr>]"
  by (simp add: page_one_def get_def is_true_restaurant_def EXCLUDE_TYPES_def
        RESTAURANT_TYPES_def)

text \<open>
  Claim C5 against a service that serves one page and then refuses: the restaurant of the
  first page is returned, the hotel is not, and the warning and its detail are printed.
\<close>

theorem fetch_failure_returns_partial_witness:
  "\<exists>before.
     fetch_all_restaurants api_one_page 47.6062 (-122.3321) 20 ''KEY''
     = ([\<lparr>name = Some ''Canlis'', rating = Some 4.8, user_ratings_total = Some 1000,
          types = Some [''restaurant'', ''food''], vicinity = Some ''2576 Aurora Ave N''\<rparr>],
        before @ [HttpGet (build_params 47.6062 (-122.3321)
                             (min (miles_to_meters 20) 50000) ''KEY'' 1 (Some ''page2'')),
                  Print [Str ''Warning: API returned status '', Str quote,
                         Str ''OVER_QUERY_LIMIT'', Str quote],
                  Print [Str ''Details: '', Str ''quota exceeded'']])"
proof -
  let ?p = "build_params 47.6062 (-122.3321) (min (miles_to_meters 20) 50000) ''KEY'' 1
              (Some ''page2'')"
  have len: "length [page_one] \<le> 2" by simp
  have p: "?p = build_params 47.6062 (-122.3321) (min (miles_to_meters 20) 50000) ''KEY''
                  (length [page_one])
                  (if [page_one] = [] then None else next_page_token (last [page_one]))"
    by (simp add: page_one_def)
  have pages: "\<forall>i<length [page_one].
             api_one_page i (build_params 47.6062 (-122.3321) (min (miles_to_meters 20) 50000)
                               ''KEY'' i
                               (if i = 0 then None else next_page_token ([page_one] ! (i - 1))))
               = Json ([page_one] ! i)
             \<and> (status ([page_one] ! i) = Some ''OK'' \<or> status ([page_one] ! i) = Some ''ZERO_RESULTS'')
             \<and> truthy (next_page_token ([page_one] ! i))"
    by (simp add: api_one_page_def page_one_def truthy_def)
  have bad: "api_one_page (length [page_one]) ?p = Json over_limit
             \<and> status over_limit \<noteq> Some ''OK'' \<and> status over_limit \<noteq> Some ''ZERO_RESULTS''"
    by (simp add: api_one_page_def over_limit_def)
  have fmt: "format_opt (status over_limit) = ''OVER_QUERY_LIMIT''"
      "truthy (error_message over_limit)" "get (error_message over_limit) [] = ''quota exceeded''"
    by (simp_all add: format_opt_def over_limit_def get_def truthy_def)
  from fetch_failure_returns_partial
         [where api = api_one_page and ds = "[page_one]" and bad = over_limit, OF len p pages] bad
  show ?thesis
    by (simp add: page_one_restaurants fmt)
qed

lemma clamp_notice_fresh:
  "clamp_notice \<notin> set (page_prefix pc)"
  "clamp_notice \<notin> set (status_warning d)"
  "clamp_notice \<notin> set (filtered_note d)"
  "clamp_notice \<noteq> HttpGet p"
  "clamp_notice \<noteq> Print [Str ''Error: API request failed: '', Str e]"
  by (simp_all add: clamp_notice_def page_prefix_def status_warning_def filtered_note_def)

lemma fetch_loop_extends:
  "\<exists>ext. snd (snd (fetch_loop api lat lng rm k pc s)) = snd (snd s) @ ext
         \<and> clamp_notice \<notin> set ext
         \<and> (pc < 3 \<longrightarrow> (\<exists>rest. ext = page_prefix pc
                                   @ HttpGet (build_params lat lng rm k pc (fst (snd s))) # rest))"
proof (induction api lat lng rm k pc s rule: fetch_loop.induct)
  case (1 api lat lng rm k pc s)
  obtain a tok out where s: "s = (a, tok, out)"
    by (cases s) auto
  let ?p = "build_params lat lng rm k pc tok"
  show ?case
  proof (cases "pc < 3")
    case False
    then show ?thesis
      by (simp add: fetch_loop_done)
  next
    case True
    have one: "\<exists>ext. out @ page_prefix pc @ [HttpGet ?p] @ es = out @ ext
                 \<and> clamp_notice \<notin> set ext
                 \<and> (pc < 3 \<longrightarrow> (\<exists>rest. ext = page_prefix pc @ HttpGet ?p # rest))"
      if "clamp_notice \<notin> set es" for es
      using that
      by (intro exI [of _ "page_prefix pc @ [HttpGet ?p] @ es"]) (simp add: clamp_notice_fresh)
    show ?thesis
    proof (cases rule: loop_body_cases [of api pc lat lng rm k tok])
      case (exception e)
      show ?thesis
        using one [of "[Print [Str ''Error: API request failed: '', Str e]]"] True exception
        by (simp add: s fetch_loop_step loop_body_exception clamp_notice_fresh)
    next
      case (refused d)
      show ?thesis
        using one [of "status_warning d"] True refused
        by (simp add: s fetch_loop_step loop_body_refused clamp_notice_fresh)
    next
      case (last d)
      show ?thesis
        using one [of "filtered_note d"] True last
        by (simp add: s fetch_loop_step loop_body_last clamp_notice_fresh)
    next
      case (more d)
      let ?s1 = "(a @ true_restaurants d, next_page_token d,
                  out @ page_prefix pc @ [HttpGet ?p] @ filtered_note d)"
      have lb: "loop_body api lat lng rm k pc s = Continue ?s1"
        using more by (simp add: s loop_body_more)
      from "1.IH" [OF True lb]
      obtain ext where ext:
        "snd (snd (fetch_loop api lat lng rm k (pc + 1) ?s1)) = snd (snd ?s1) @ ext"
        "clamp_notice \<notin> set ext"
        by blast
      have fl: "fetch_loop api lat lng rm k pc s = fetch_loop api lat lng rm k (pc + 1) ?s1"
        using True lb by (simp add: fetch_loop_step)
      show ?thesis
        unfolding fl
        using ext
        by (intro exI [of _ "page_prefix pc @ [HttpGet ?p] @ filtered_note d @ ext"])
           (simp add: s clamp_notice_fresh)
    qed
  qed
qed

lemma int_of_float_gt:
  "(n < int_of_float x) = (real_of_int n + 1 \<le> x)" if "0 \<le> n"
proof (cases "0 \<le> x")
  case True
  then show ?thesis
    by (simp add: int_of_float_def less_floor_iff)
next
  case False
  then have "\<lceil>x\<rceil> \<le> 0"
    by (simp add: ceiling_le_iff)
  with that have "\<not> n < \<lceil>x\<rceil>"
    by linarith
  moreover have "\<not> real_of_int n + 1 \<le> x"
    using False that by linarith
  ultimately show ?thesis
    using False by (simp add: int_of_float_def)
qed

text \<open>
  Claim C6, amended. The radius in meters is the product with 1609.34 truncated towards
  zero. It exceeds 50000 exactly when the product is at least 50001; then the run starts
  with the clamp notice, printed once, and its first request has radius 50000. Otherwise no
  notice is printed and the first request has the converted radius.
\<close>

theorem radius_conversion_and_clamp:
  "miles_to_meters radius_miles
     = (if 0 \<le> radius_miles * 1609.34 then \<lfloor>radius_miles * 1609.34\<rfloor>
        else \<lceil>radius_miles * 1609.34\<rceil>)
   \<and> (50000 < miles_to_meters radius_miles) = (50001 \<le> radius_miles * 1609.34)
   \<and> (50000 < miles_to_meters radius_miles \<longrightarrow>
        (\<exists>p rest. snd (fetch_all_restaurants api lat lng radius_miles api_key)
                     = clamp_notice # HttpGet p # rest
                  \<and> radius p = Some 50000 \<and> clamp_notice \<notin> set rest))
   \<and> (miles_to_meters radius_miles \<le> 50000 \<longrightarrow>
        (\<exists>p rest. snd (fetch_all_restaurants api lat lng radius_miles api_key)
                     = HttpGet p # rest
                  \<and> radius p = Some (miles_to_meters radius_miles) \<and> clamp_notice \<notin> set rest))"
proof (intro conjI impI)
  show "miles_to_meters radius_miles
     = (if 0 \<le> radius_miles * 1609.34 then \<lfloor>radius_miles * 1609.34\<rfloor>
        else \<lceil>radius_miles * 1609.34\<rceil>)"
    by (simp add: miles_to_meters_def int_of_float_def)
  show "(50000 < miles_to_meters radius_miles) = (50001 \<le> radius_miles * 1609.34)"
    unfolding miles_to_meters_def
    using int_of_float_gt [of 50000 "radius_miles * 1609.34"] by simp
next
  assume big: "50000 < miles_to_meters radius_miles"
  let ?s0 = "([], None, [clamp_notice]) :: place list \<times> string option \<times> event list"
  obtain ext rest where
    "snd (snd (fetch_loop api lat lng 50000 api_key 0 ?s0)) = snd (snd ?s0) @ ext"
    "clamp_notice \<notin> set ext"
    "ext = page_prefix 0 @ HttpGet (build_params lat lng 50000 api_key 0 (fst (snd ?s0))) # rest"
    using fetch_loop_extends [of api lat lng 50000 api_key 0 ?s0] by auto
  then have "snd (fetch_all_restaurants api lat lng radius_miles api_key)
               = clamp_notice # HttpGet (build_params lat lng 50000 api_key 0 None) # rest
             \<and> radius (build_params lat lng 50000 api_key 0 None) = Some 50000
             \<and> clamp_notice \<notin> set rest"
    using big by (simp add: fetch_all_trace page_prefix_def build_params_def)
  then show "\<exists>p rest. snd (fetch_all_restaurants api lat lng radius_miles api_key)
                     = clamp_notice # HttpGet p # rest
                  \<and> radius p = Some 50000 \<and> clamp_notice \<notin> set rest"
    by blast
next
  assume small: "miles_to_meters radius_miles \<le> 50000"
  let ?rm = "miles_to_meters radius_miles"
  let ?s0 = "([], None, []) :: place list \<times> string option \<times> event list"
  obtain ext rest where
    "snd (snd (fetch_loop api lat lng ?rm api_key 0 ?s0)) = snd (snd ?s0) @ ext"
    "clamp_notice \<notin> set ext"
    "ext = page_prefix 0 @ HttpGet (build_params lat lng ?rm api_key 0 (fst (snd ?s0))) # rest"
    using fetch_loop_extends [of api lat lng ?rm api_key 0 ?s0] by auto
  then have "snd (fetch_all_restaurants api lat lng radius_miles api_key)
               = HttpGet (build_params lat lng ?rm api_key 0 None) # rest
             \<and> radius (build_params lat lng ?rm api_key 0 None) = Some ?rm
             \<and> clamp_notice \<notin> set rest"
    using small by (simp add: fetch_all_trace page_prefix_def build_params_def)
  then show "\<exists>p rest. snd (fetch_all_restaurants api lat lng radius_miles api_key)
                     = HttpGet p # rest
                  \<and> radius p = Some ?rm \<and> clamp_notice \<notin> set rest"
    by blast
qed

lemma fetch_all_api_down:
  "fetch_all_restaurants api_down lat lng miles k
   = ([], (if miles_to_meters miles > 50000 then [clamp_notice] else [])
          @ [HttpGet (build_params lat lng (min (miles_to_meters miles) 50000) k 0 None),
             Print [Str ''Error: API request failed: '', Str ''Connection timed out'']])"
  by (simp add: fetch_all_unfold fetch_loop_step loop_body_exception api_down_def page_prefix_def)

lemma m2m_31_05: "miles_to_meters 31.05 = 49970"
  by (simp add: miles_to_meters_def int_of_float_def)

lemma m2m_40: "miles_to_meters 40 = 64373"
  by (simp add: miles_to_meters_def int_of_float_def)

text \<open>
  Claim C6 as stated fails between 31 miles and the clamp: a radius of 31.05 miles converts
  to 49970 meters, which is requested as it is, and no notice is printed.
\<close>

theorem radius_above_31_miles_not_clamped:
  "(31::real) < 31.05
   \<and> fetch_all_restaurants api_down 47.6062 (-122.3321) 31.05 ''KEY''
     = ([], [HttpGet \<lparr>key = ''KEY'', type = ''restaurant'', keyword = ''restaurant'',
                     location = Some (47.6062, -122.3321), radius = Some 49970,
                     pagetoken = None\<rparr>,
             Print [Str ''Error: API request failed: '', Str ''Connection timed out'']])"
  by (simp only: fetch_all_api_down m2m_31_05) (simp add: build_params_def)

text \<open>
  Claim C6, amended, on a radius of 40 miles.
\<close>

theorem radius_conversion_and_clamp_witness:
  "\<exists>p rest. snd (fetch_all_restaurants api_down 47.6062 (-122.3321) 40 ''KEY'')
              = clamp_notice # HttpGet p # rest
           \<and> radius p = Some 50000 \<and> clamp_notice \<notin> set rest"
  using radius_conversion_and_clamp [of 40 api_down "47.6062" "-122.3321" "''KEY''"]
  by (simp only: m2m_40) simp

section \<open>Properties of the presenter and the pipeline\<close>

text \<open>
  Claim C7. For an empty ranked list the presenter prints the header and the guidance
  block: the review threshold halved by integer division, the rating threshold lowered by
  0.2 but not below 3.0, the radius raised by 10 but not above 31. When the first request
  fails, \<open>main\<close> ends with that block and returns instead of exiting with an error.
\<close>

theorem no_results_guidance:
  "display_results limit [] location_name radius_miles min_rating min_reviews total_fetched show_types
     = display_header [] location_name radius_miles min_rating min_reviews total_fetched
       @ [Print [Str newline, Str ''No restaurants found matching your criteria.''],
          Print [Str ''Try adjusting your filters:''],
          Print [Str ''  --reviews '', Dec (min_reviews div 2)],
          Print [Str ''  --rating '', Fixed 1 (max (min_rating - 0.2) 3.0)],
          Print [Str ''  --radius '', Num (min (radius_miles + 10) 31)]]
   \<and> (get_location float (arg_city args) (arg_coords args) = (located, Inr (lat, lng, label))
        \<and> api 0 (build_params lat lng (min (miles_to_meters (arg_radius args)) 50000)
                    (arg_api_key args) 0 None) = RequestException e
      \<longrightarrow> (\<exists>before. main float fl api args
             = (before
                @ display_header [] label (arg_radius args) (arg_rating args) (arg_reviews args) 0
                @ [Print [Str newline, Str ''No restaurants found matching your criteria.''],
                   Print [Str ''Try adjusting your filters:''],
                   Print [Str ''  --reviews '', Dec (arg_reviews args div 2)],
                   Print [Str ''  --rating '', Fixed 1 (max (arg_rating args - 0.2) 3.0)],
                   Print [Str ''  --radius '', Num (min (arg_radius args + 10) 31)]],
                Inr ())))"
proof (intro conjI impI)
  show "display_results limit [] location_name radius_miles min_rating min_reviews total_fetched show_types
     = display_header [] location_name radius_miles min_rating min_reviews total_fetched
       @ [Print [Str newline, Str ''No restaurants found matching your criteria.''],
          Print [Str ''Try adjusting your filters:''],
          Print [Str ''  --reviews '', Dec (min_reviews div 2)],
          Print [Str ''  --rating '', Fixed 1 (max (min_rating - 0.2) 3.0)],
          Print [Str ''  --radius '', Num (min (radius_miles + 10) 31)]]"
    by (simp add: display_results_def)
next
  assume h: "get_location float (arg_city args) (arg_coords args) = (located, Inr (lat, lng, label))
        \<and> api 0 (build_params lat lng (min (miles_to_meters (arg_radius args)) 50000)
                    (arg_api_key args) 0 None) = RequestException e"
  let ?rm = "min (miles_to_meters (arg_radius args)) 50000"
  let ?out0 = "if miles_to_meters (arg_radius args) > 50000 then [clamp_notice] else []"
  have "fetch_loop api lat lng ?rm (arg_api_key args) 0 ([], None, ?out0)
        = ([], None, ?out0 @ page_prefix 0
                     @ [HttpGet (build_params lat lng ?rm (arg_api_key args) 0 None),
                        Print [Str ''Error: API request failed: '', Str e]])"
    using h by (simp add: fetch_loop_step loop_body_exception)
  then have fetched: "fst (fetch_all_restaurants api lat lng (arg_radius args) (arg_api_key args)) = []"
    unfolding fetch_all_unfold by simp
  have ranked: "filter_and_rank_restaurants fl [] (arg_rating args) (arg_reviews args) = []"
    by (simp add: filter_and_rank_restaurants_def sorted_reverse_def)
  obtain tr where tr: "fetch_all_restaurants api lat lng (arg_radius args) (arg_api_key args) = ([], tr)"
    using fetched by (cases "fetch_all_restaurants api lat lng (arg_radius args) (arg_api_key args)") auto
  have "main float fl api args
        = ((located @ [Print ([Str ''Location: ''] @ label
                              @ [Str '' ('', Fixed 4 lat, Str '', '', Fixed 4 lng, Str '')'']),
                       Print [Str ''Searching restaurants within '', Num (arg_radius args),
                              Str '' miles...''],
                       Print [Str ''  Fetching page 1/3...'']]
            @ tr @ [Print [Str ''  Retrieved '', Dec 0, Str '' true restaurants'']])
           @ display_results (arg_limit args) [] label (arg_radius args) (arg_rating args)
               (arg_reviews args) 0 (arg_show_types args),
           Inr ())"
    using h by (simp add: main_def tr ranked Let_def)
  then show "\<exists>before. main float fl api args
             = (before
                @ display_header [] label (arg_radius args) (arg_rating args) (arg_reviews args) 0
                @ [Print [Str newline, Str ''No restaurants found matching your criteria.''],
                   Print [Str ''Try adjusting your filters:''],
                   Print [Str ''  --reviews '', Dec (arg_reviews args div 2)],
                   Print [Str ''  --rating '', Fixed 1 (max (arg_rating args - 0.2) 3.0)],
                   Print [Str ''  --radius '', Num (min (arg_radius args + 10) 31)]],
                Inr ())"
    unfolding display_results_def by (intro exI) (simp only: if_True refl)
qed

text \<open>
  Claim C7 on the default arguments against a service that cannot be reached.
\<close>

theorem no_results_guidance_witness:
  "\<exists>before. main float_decimal exact_ops api_down default_args
     = (before
        @ [Print [Str newline, Str ''No restaurants found matching your criteria.''],
           Print [Str ''Try adjusting your filters:''],
           Print [Str ''  --reviews '', Dec 150],
           Print [Str ''  --rating '', Fixed 1 4.5],
           Print [Str ''  --radius '', Num 30]],
        Inr ())"
proof -
  have loc: "get_location float_decimal (arg_city default_args) (arg_coords default_args)
             = ([], Inr (47.6062, -122.3321, [Str ''Seattle'']))"
    by (simp add: default_args_def get_location_def truthy_def map_of_seattle)
  have down: "api_down 0 (build_params 47.6062 (-122.3321)
                (min (miles_to_meters (arg_radius default_args)) 50000)
                (arg_api_key default_args) 0 None) = RequestException ''Connection timed out''"
    by (simp add: api_down_def)
  have vals: "arg_reviews default_args div 2 = 150"
      "max (arg_rating default_args - 0.2) 3.0 = 4.5"
      "min (arg_radius default_args + 10) 31 = 30"
    by (simp_all add: default_args_def)
  obtain before where
    "main float_decimal exact_ops api_down default_args
     = (before
        @ display_header [] [Str ''Seattle''] (arg_radius default_args) (arg_rating default_args)
            (arg_reviews default_args) 0
        @ [Print [Str newline, Str ''No restaurants found matching your criteria.''],
           Print [Str ''Try adjusting your filters:''],
           Print [Str ''  --reviews '', Dec (arg_reviews default_args div 2)],
           Print [Str ''  --rating '', Fixed 1 (max (arg_rating default_args - 0.2) 3.0)],
           Print [Str ''  --radius '', Num (min (arg_radius default_args + 10) 31)]],
        Inr ())"
    using no_results_guidance
            [where float = float_decimal and fl = exact_ops and args = default_args
               and located = "[]" and lat = "47.6062" and lng = "-122.3321"
               and label = "[Str ''Seattle'']" and api = api_down
               and e = "''Connection timed out''"] loc down
    by blast
  then have "main float_decimal exact_ops api_down default_args
     = ((before
         @ display_header [] [Str ''Seattle''] (arg_radius default_args) (arg_rating default_args)
            (arg_reviews default_args) 0)
        @ [Print [Str newline, Str ''No restaurants found matching your criteria.''],
           Print [Str ''Try adjusting your filters:''],
           Print [Str ''  --reviews '', Dec 150],
           Print [Str ''  --rating '', Fixed 1 4.5],
           Print [Str ''  --radius '', Num 30]],
        Inr ())"
    by (simp only: vals append_assoc)
  then show ?thesis
    by blast
qed

end
